theory Spec2Isabelle
  imports Complex_Main
begin

section \<open>JavaScript numbers\<close>

text \<open>
  The components compute with JavaScript \<open>number\<close> values. A number is modelled as an
  exact rational extended by the two infinities and NaN, so that a division by zero is a
  value of the model, as it is in the program (\<open>0 / 0\<close> is NaN, \<open>1 / 0\<close> is Infinity).
  The sign of zero is not modelled. Arithmetic on finite values is exact in the
  components; the overall score, where the order of the additions decides the result,
  is also given with every operation rounded to binary64 (section "The overall risk in
  binary64"). Counters that the code only ever increments from \<open>0\<close> are natural
  numbers, and the values drawn per tick by the measurement simulation are finite
  rationals.
\<close>

datatype jsnum = Fin rat | PInf | NInf | NaN

abbreviation num :: "nat \<Rightarrow> jsnum" where
  "num n \<equiv> Fin (of_nat n)"

fun js_add :: "jsnum \<Rightarrow> jsnum \<Rightarrow> jsnum" where
  "js_add NaN y = NaN"
| "js_add x NaN = NaN"
| "js_add (Fin a) (Fin b) = Fin (a + b)"
| "js_add PInf NInf = NaN"
| "js_add NInf PInf = NaN"
| "js_add PInf y = PInf"
| "js_add x PInf = PInf"
| "js_add NInf y = NInf"
| "js_add x NInf = NInf"

fun js_mul :: "jsnum \<Rightarrow> jsnum \<Rightarrow> jsnum" where
  "js_mul NaN y = NaN"
| "js_mul x NaN = NaN"
| "js_mul (Fin a) (Fin b) = Fin (a * b)"
| "js_mul (Fin a) PInf = (if a = 0 then NaN else if 0 < a then PInf else NInf)"
| "js_mul (Fin a) NInf = (if a = 0 then NaN else if 0 < a then NInf else PInf)"
| "js_mul PInf (Fin b) = (if b = 0 then NaN else if 0 < b then PInf else NInf)"
| "js_mul NInf (Fin b) = (if b = 0 then NaN else if 0 < b then NInf else PInf)"
| "js_mul PInf PInf = PInf"
| "js_mul NInf NInf = PInf"
| "js_mul PInf NInf = NInf"
| "js_mul NInf PInf = NInf"

fun js_div :: "jsnum \<Rightarrow> jsnum \<Rightarrow> jsnum" where
  "js_div NaN y = NaN"
| "js_div x NaN = NaN"
| "js_div (Fin a) (Fin b) =
     (if b = 0 then (if a = 0 then NaN else if 0 < a then PInf else NInf)
      else Fin (a / b))"
| "js_div (Fin a) PInf = Fin 0"
| "js_div (Fin a) NInf = Fin 0"
| "js_div PInf (Fin b) = (if 0 \<le> b then PInf else NInf)"
| "js_div NInf (Fin b) = (if 0 \<le> b then NInf else PInf)"
| "js_div PInf PInf = NaN"
| "js_div PInf NInf = NaN"
| "js_div NInf PInf = NaN"
| "js_div NInf NInf = NaN"

text \<open>\<open>x < y\<close>; every comparison with NaN is false.\<close>

fun js_lt :: "jsnum \<Rightarrow> jsnum \<Rightarrow> bool" where
  "js_lt NaN y = False"
| "js_lt x NaN = False"
| "js_lt (Fin a) (Fin b) = (a < b)"
| "js_lt (Fin a) PInf = True"
| "js_lt (Fin a) NInf = False"
| "js_lt PInf y = False"
| "js_lt NInf NInf = False"
| "js_lt NInf y = True"

definition js_gt :: "jsnum \<Rightarrow> jsnum \<Rightarrow> bool" where
  "js_gt x y = js_lt y x"

text \<open>Truthiness of a number: \<open>0\<close> and NaN are falsy.\<close>

fun truthy :: "jsnum \<Rightarrow> bool" where
  "truthy NaN = False"
| "truthy (Fin a) = (a \<noteq> 0)"
| "truthy PInf = True"
| "truthy NInf = True"

text \<open>
  \<open>x || 0\<close>, where \<open>x\<close> is a number or \<open>undefined\<close> (\<open>None\<close>), and the conversion
  of such a value to a number when it is an operand of \<open>/\<close>.
\<close>

fun js_or0 :: "jsnum option \<Rightarrow> jsnum" where
  "js_or0 None = Fin 0"
| "js_or0 (Some x) = (if truthy x then x else Fin 0)"

fun to_number :: "jsnum option \<Rightarrow> jsnum" where
  "to_number None = NaN"
| "to_number (Some x) = x"

section \<open>Risk levels\<close>

datatype riskLevel = Low | Medium | High

text \<open>
  The expression \<open>s > 0.6 ? 'High' : s > 0.3 ? 'Medium' : 'Low'\<close> is written out in the
  questionnaire, the eye-tracking and the facial-analysis component, and as two
  \<open>if\<close> statements in \<open>calculateOverallRisk\<close>.
\<close>

definition riskLevelOf :: "jsnum \<Rightarrow> riskLevel" where
  "riskLevelOf s =
     (if js_gt s (Fin (6 / 10)) then High
      else if js_gt s (Fin (3 / 10)) then Medium
      else Low)"

text \<open>
  \<open>Object.values(asdIndicators).filter(Boolean).length / Object.keys(asdIndicators).length\<close>,
  the same expression in both timed components, over the flags of the indicator object
  in the order of its keys.
\<close>

definition indicatorRatio :: "bool list \<Rightarrow> jsnum" where
  "indicatorRatio flags = js_div (num (length (filter (\<lambda>b. b) flags))) (num (length flags))"

section \<open>Eye tracking (EyeTrackingAssessment)\<close>

record EyeMetrics =
  fixationDuration :: "rat list"
  saccadicMovements :: nat
  blinkRate :: nat
  gazeStability :: rat

text \<open>
  One tick of \<open>simulateEyeTracking\<close> draws four random values; a sample holds what the
  draws decided: the fixation time, whether a saccade and a blink were counted, and the
  gaze stability.
\<close>

record EyeSample =
  fixationTime :: rat
  saccade :: bool
  blink :: bool
  gaze :: rat

definition initialEyeMetrics :: EyeMetrics where
  "initialEyeMetrics =
     \<lparr>fixationDuration = [], saccadicMovements = 0, blinkRate = 0, gazeStability = 0\<rparr>"

definition simulateEyeTracking :: "EyeMetrics \<Rightarrow> EyeSample \<Rightarrow> EyeMetrics" where
  "simulateEyeTracking m s =
     \<lparr>fixationDuration = fixationDuration m @ [fixationTime s],
      saccadicMovements = (if saccade s then saccadicMovements m + 1 else saccadicMovements m),
      blinkRate = (if blink s then blinkRate m + 1 else blinkRate m),
      gazeStability = gaze s\<rparr>"

text \<open>\<open>startRecording\<close> resets the metrics; every tick applies one sample.\<close>

definition recordEye :: "EyeSample list \<Rightarrow> EyeMetrics" where
  "recordEye samples = foldl simulateEyeTracking initialEyeMetrics samples"

definition EYE_RECORDING_DURATION :: nat where
  "EYE_RECORDING_DURATION = 30"

record EyeSummary =
  avgFixationDuration :: jsnum
  saccadicRate :: jsnum
  blinkRatePerMinute :: jsnum
  eye_gazeStability :: jsnum
  eye_recordingDuration :: nat

record EyeIndicators =
  longFixations :: bool
  lowSaccadicRate :: bool
  atypicalBlinking :: bool
  poorGazeStability :: bool

record EyeResult =
  eye_metrics :: EyeSummary
  eye_indicators :: EyeIndicators
  eye_riskScore :: jsnum
  eye_riskLevel :: riskLevel

definition eye_summary :: "EyeMetrics \<Rightarrow> EyeSummary" where
  "eye_summary finalMetrics =
     \<lparr>avgFixationDuration =
        js_or0 (Some (js_div (Fin (foldl (+) 0 (fixationDuration finalMetrics)))
                             (num (length (fixationDuration finalMetrics))))),
      saccadicRate =
        js_div (num (saccadicMovements finalMetrics))
               (js_div (num EYE_RECORDING_DURATION) (Fin 60)),
      blinkRatePerMinute =
        js_mul (js_div (num (blinkRate finalMetrics)) (num EYE_RECORDING_DURATION)) (Fin 60),
      eye_gazeStability = Fin (gazeStability finalMetrics),
      eye_recordingDuration = EYE_RECORDING_DURATION\<rparr>"

definition eye_asdIndicators :: "EyeSummary \<Rightarrow> EyeIndicators" where
  "eye_asdIndicators m =
     \<lparr>longFixations = js_gt (avgFixationDuration m) (Fin 1200),
      lowSaccadicRate = js_lt (saccadicRate m) (Fin 30),
      atypicalBlinking =
        (js_lt (blinkRatePerMinute m) (Fin 10) \<or> js_gt (blinkRatePerMinute m) (Fin 25)),
      poorGazeStability = js_lt (eye_gazeStability m) (Fin (6 / 10))\<rparr>"

definition eye_flags :: "EyeIndicators \<Rightarrow> bool list" where
  "eye_flags i = [longFixations i, lowSaccadicRate i, atypicalBlinking i, poorGazeStability i]"

text \<open>
  \<open>stopRecording\<close> of the eye-tracking component: the payload handed to \<open>onComplete\<close>.
  The summary and the indicator object are its local constants.
\<close>

definition eye_stopRecording :: "EyeMetrics \<Rightarrow> EyeResult" where
  "eye_stopRecording finalMetrics =
     (let m = eye_summary finalMetrics;
          asdIndicators = eye_asdIndicators m;
          riskScore = indicatorRatio (eye_flags asdIndicators)
      in \<lparr>eye_metrics = m, eye_indicators = asdIndicators,
          eye_riskScore = riskScore, eye_riskLevel = riskLevelOf riskScore\<rparr>)"

section \<open>Facial analysis (FacialAnalysisAssessment)\<close>

datatype emotion = neutral | happy | sad | surprised | angry | fearful

text \<open>
  The keys of the \<open>emotionDetection\<close> object literal, in the order in which
  \<open>Object.values\<close> and \<open>Object.entries\<close> enumerate them. The object always holds
  exactly these six keys, so it is a function from the key to its tally.
\<close>

definition emotions :: "emotion list" where
  "emotions = [neutral, happy, sad, surprised, angry, fearful]"

datatype microExpression = eyebrow_raise | lip_compression | eye_squint | smile_onset

record FacialMetrics =
  emotionDetection :: "emotion \<Rightarrow> nat"
  facialLandmarks :: nat
  eyeContactFrequency :: nat
  microExpressions :: "microExpression list"
  symmetryScore :: rat

text \<open>
  What the random draws of one tick of \<open>simulateFacialAnalysis\<close> decided: the dominant
  emotion, whether eye contact was counted, the micro-expression detected (if any) and
  the symmetry score.
\<close>

record FacialSample =
  dominantEmotion :: emotion
  eyeContact :: bool
  micro :: "microExpression option"
  symmetry :: rat

definition initialFacialMetrics :: FacialMetrics where
  "initialFacialMetrics =
     \<lparr>emotionDetection = (\<lambda>e. 0), facialLandmarks = 0, eyeContactFrequency = 0,
      microExpressions = [], symmetryScore = 0\<rparr>"

definition simulateFacialAnalysis :: "FacialMetrics \<Rightarrow> FacialSample \<Rightarrow> FacialMetrics" where
  "simulateFacialAnalysis m s =
     \<lparr>emotionDetection =
        (emotionDetection m)(dominantEmotion s := emotionDetection m (dominantEmotion s) + 1),
      facialLandmarks = 468,
      eyeContactFrequency =
        (if eyeContact s then eyeContactFrequency m + 1 else eyeContactFrequency m),
      microExpressions =
        (case micro s of
           None \<Rightarrow> microExpressions m
         | Some expression \<Rightarrow>
             if expression \<notin> set (microExpressions m)
             then microExpressions m @ [expression] else microExpressions m),
      symmetryScore = symmetry s\<rparr>"

definition recordFace :: "FacialSample list \<Rightarrow> FacialMetrics" where
  "recordFace samples = foldl simulateFacialAnalysis initialFacialMetrics samples"

definition FACE_RECORDING_DURATION :: nat where
  "FACE_RECORDING_DURATION = 45"

record FacialSummary =
  emotionDistribution :: "(emotion \<times> jsnum) list"
  eyeContactRate :: jsnum
  face_microExpressions :: "microExpression list"
  facialSymmetry :: jsnum
  landmarksDetected :: nat
  face_recordingDuration :: nat

record FacialIndicators =
  limitedEmotionalRange :: bool
  lowEyeContact :: bool
  reducedMicroExpressions :: bool
  facialAsymmetry :: bool
  neutralExpressionDominance :: bool

record FacialResult =
  face_metrics :: FacialSummary
  face_indicators :: FacialIndicators
  face_riskScore :: jsnum
  face_riskLevel :: riskLevel

definition totalEmotions :: "FacialMetrics \<Rightarrow> nat" where
  "totalEmotions finalMetrics = foldl (+) 0 (map (emotionDetection finalMetrics) emotions)"

definition face_emotionDistribution :: "FacialMetrics \<Rightarrow> (emotion \<times> jsnum) list" where
  "face_emotionDistribution finalMetrics =
     map (\<lambda>e. (e, if js_gt (num (totalEmotions finalMetrics)) (Fin 0)
                   then js_mul (js_div (num (emotionDetection finalMetrics e))
                                       (num (totalEmotions finalMetrics))) (Fin 100)
                   else Fin 0))
         emotions"

definition face_eyeContactRate :: "FacialMetrics \<Rightarrow> jsnum" where
  "face_eyeContactRate finalMetrics =
     js_mul (js_div (num (eyeContactFrequency finalMetrics)) (num FACE_RECORDING_DURATION))
            (Fin 100)"

definition face_asdIndicators :: "FacialMetrics \<Rightarrow> FacialIndicators" where
  "face_asdIndicators finalMetrics =
     \<lparr>limitedEmotionalRange =
        (length (filter (\<lambda>(e, percentage). js_gt percentage (Fin 10))
                        (face_emotionDistribution finalMetrics)) < 3),
      lowEyeContact = js_lt (face_eyeContactRate finalMetrics) (Fin 40),
      reducedMicroExpressions = (length (microExpressions finalMetrics) < 2),
      facialAsymmetry = js_lt (Fin (symmetryScore finalMetrics)) (Fin (8 / 10)),
      neutralExpressionDominance =
        js_gt (js_div (num (emotionDetection finalMetrics neutral))
                      (num (totalEmotions finalMetrics)))
              (Fin (7 / 10))\<rparr>"

definition face_flags :: "FacialIndicators \<Rightarrow> bool list" where
  "face_flags i =
     [limitedEmotionalRange i, lowEyeContact i, reducedMicroExpressions i,
      facialAsymmetry i, neutralExpressionDominance i]"

text \<open>\<open>stopRecording\<close> of the facial-analysis component.\<close>

definition face_stopRecording :: "FacialMetrics \<Rightarrow> FacialResult" where
  "face_stopRecording finalMetrics =
     (let asdIndicators = face_asdIndicators finalMetrics;
          riskScore = indicatorRatio (face_flags asdIndicators)
      in \<lparr>face_metrics =
            \<lparr>emotionDistribution = face_emotionDistribution finalMetrics,
             eyeContactRate = face_eyeContactRate finalMetrics,
             face_microExpressions = microExpressions finalMetrics,
             facialSymmetry = Fin (symmetryScore finalMetrics),
             landmarksDetected = facialLandmarks finalMetrics,
             face_recordingDuration = FACE_RECORDING_DURATION\<rparr>,
          face_indicators = asdIndicators,
          face_riskScore = riskScore, face_riskLevel = riskLevelOf riskScore\<rparr>)"

section \<open>Behavioral questionnaire (BehavioralQuestionnaire)\<close>

text \<open>
  A question is its \<open>id\<close> and its \<open>category\<close>; the wording and the option labels take
  no part in the scoring. The answers are an object from question id to the chosen
  value, kept as an association list with one entry per key.
\<close>

definition questions :: "(nat \<times> string) list" where
  "questions =
     [(1, ''Social Communication''), (2, ''Social Communication''),
      (3, ''Repetitive Behaviors''), (4, ''Sensory Processing''),
      (5, ''Social Interaction''), (6, ''Communication'')]"

type_synonym answers = "(nat \<times> nat) list"

fun handleAnswer :: "answers \<Rightarrow> nat \<Rightarrow> nat \<Rightarrow> answers" where
  "handleAnswer [] questionId v = [(questionId, v)]"
| "handleAnswer ((k, w) # prev) questionId v =
     (if k = questionId then (k, v) # prev else (k, w) # handleAnswer prev questionId v)"

text \<open>The reducer of \<open>categoryScores\<close>: push the score onto the category's array.\<close>

fun pushScore :: "(string \<times> nat list) list \<Rightarrow> string \<Rightarrow> nat \<Rightarrow> (string \<times> nat list) list" where
  "pushScore [] category score = [(category, [score])]"
| "pushScore ((c, scores) # acc) category score =
     (if c = category then (c, scores @ [score]) # acc
      else (c, scores) # pushScore acc category score)"

definition categoryScores :: "answers \<Rightarrow> (string \<times> nat list) list" where
  "categoryScores ans =
     foldl (\<lambda>acc (qid, category).
              pushScore acc category (case map_of ans qid of None \<Rightarrow> 0 | Some v \<Rightarrow> v))
           [] questions"

record CategoryResult =
  category :: string
  score :: nat
  maxScore :: nat
  percentage :: jsnum

record QuestionnaireResult =
  q_answers :: answers
  q_categoryScores :: "CategoryResult list"
  totalScore :: nat
  maxTotalScore :: nat
  q_riskLevel :: riskLevel

definition questionnaireResult :: "answers \<Rightarrow> QuestionnaireResult" where
  "questionnaireResult ans =
     (let rs = map (\<lambda>(c, scores).
                      \<lparr>category = c,
                       score = foldl (+) 0 scores,
                       maxScore = length scores * 3,
                       percentage =
                         js_mul (js_div (num (foldl (+) 0 scores)) (num (length scores * 3)))
                                (Fin 100)\<rparr>)
                   (categoryScores ans);
          total = foldl (+) 0 (map snd ans);
          maxTotal = length questions * 3
      in \<lparr>q_answers = ans, q_categoryScores = rs, totalScore = total,
          maxTotalScore = maxTotal,
          q_riskLevel = riskLevelOf (js_div (num total) (num maxTotal))\<rparr>)"

text \<open>
  \<open>handleNext\<close>: before the last question it moves to the next one; on the last
  question it hands the result to \<open>onComplete\<close>.
\<close>

definition handleNext :: "nat \<Rightarrow> answers \<Rightarrow> nat + QuestionnaireResult" where
  "handleNext currentQuestion ans =
     (if int currentQuestion < int (length questions) - 1
      then Inl (currentQuestion + 1)
      else Inr (questionnaireResult ans))"

section \<open>The assessment session (ASDAssessment)\<close>

datatype AssessmentStage = intro | questionnaire | eyeTracking | facialAnalysis | results

text \<open>
  The payload of \<open>onComplete\<close> is typed \<open>any\<close>; the three components hand over these
  three shapes.
\<close>

datatype stageData =
  QuestionnaireData QuestionnaireResult
| EyeTrackingData EyeResult
| FacialAnalysisData FacialResult

record Session =
  currentStage :: AssessmentStage
  assessmentData :: "AssessmentStage \<rightharpoonup> stageData"
  progress :: jsnum

definition stages :: "AssessmentStage list" where
  "stages = [questionnaire, eyeTracking, facialAnalysis]"

text \<open>
  The initial values of the three \<open>useState\<close> hooks, and the click on
  "Begin Assessment", which sets the stage to the questionnaire.
\<close>

definition initialSession :: Session where
  "initialSession = \<lparr>currentStage = intro, assessmentData = Map.empty, progress = Fin 0\<rparr>"

definition beginAssessment :: "Session \<Rightarrow> Session" where
  "beginAssessment s = s\<lparr>currentStage := questionnaire\<rparr>"

text \<open>\<open>Array.prototype.findIndex\<close> on the stage ids: \<open>-1\<close> when no stage matches.\<close>

fun findIndexFrom :: "int \<Rightarrow> AssessmentStage list \<Rightarrow> AssessmentStage \<Rightarrow> int" where
  "findIndexFrom i [] x = -1"
| "findIndexFrom i (y # ys) x = (if y = x then i else findIndexFrom (i + 1) ys x)"

definition findIndex :: "AssessmentStage \<Rightarrow> int" where
  "findIndex x = findIndexFrom 0 stages x"

text \<open>
  \<open>handleStageComplete\<close>. The payload is stored under the key \<open>currentStage\<close>, whatever
  component produced it. \<open>updateProgress\<close> reads the \<open>currentStage\<close> of the same
  render, the stage just completed. The index \<open>currentIndex + 1\<close> is within the array
  in the first branch, since \<open>-1 \<le> currentIndex < stages.length - 1\<close>.
\<close>

definition handleStageComplete :: "Session \<Rightarrow> stageData \<Rightarrow> Session" where
  "handleStageComplete s d =
     (let data = (assessmentData s)(currentStage s \<mapsto> d);
          currentIndex = findIndex (currentStage s)
      in if currentIndex < int (length stages) - 1
         then \<lparr>currentStage = stages ! nat (currentIndex + 1),
               assessmentData = data,
               progress =
                 js_mul (js_div (Fin (of_int (findIndex (currentStage s) + 1)))
                                (num (length stages))) (Fin 100)\<rparr>
         else \<lparr>currentStage = results, assessmentData = data, progress = Fin 100\<rparr>)"

text \<open>
  \<open>renderCurrentStage\<close> hands \<open>handleStageComplete\<close> to the screen of the current
  stage as its \<open>onComplete\<close>. The closure a screen holds was created by a render in
  which \<open>currentStage\<close> was that screen's stage \<open>c\<close>, so the handler reads \<open>c\<close>
  where its body says \<open>currentStage\<close>, while the functional update of
  \<open>assessmentData\<close> reads the live mapping. The two timed screens call \<open>onComplete\<close>
  from a timeout of two seconds that nothing cancels, so the call can arrive when the
  live stage has already moved on.
\<close>

definition onComplete :: "AssessmentStage \<Rightarrow> Session \<Rightarrow> stageData \<Rightarrow> Session" where
  "onComplete c s d = handleStageComplete (s\<lparr>currentStage := c\<rparr>) d"

section \<open>The overall risk (AssessmentResults)\<close>

text \<open>
  Property reads on the optional stage payloads: \<open>None\<close> is \<open>undefined\<close>, the value of
  \<open>x?.f\<close> when \<open>x\<close> is missing or has no field \<open>f\<close>.
\<close>

fun get_totalScore :: "stageData option \<Rightarrow> jsnum option" where
  "get_totalScore (Some (QuestionnaireData q)) = Some (num (totalScore q))"
| "get_totalScore x = None"

fun get_maxTotalScore :: "stageData option \<Rightarrow> jsnum option" where
  "get_maxTotalScore (Some (QuestionnaireData q)) = Some (num (maxTotalScore q))"
| "get_maxTotalScore x = None"

fun get_riskScore :: "stageData option \<Rightarrow> jsnum option" where
  "get_riskScore (Some (EyeTrackingData e)) = Some (eye_riskScore e)"
| "get_riskScore (Some (FacialAnalysisData f)) = Some (face_riskScore f)"
| "get_riskScore x = None"

definition riskScores :: "(AssessmentStage \<rightharpoonup> stageData) \<Rightarrow> jsnum list" where
  "riskScores data =
     [js_or0 (Some (js_div (to_number (get_totalScore (data questionnaire)))
                           (to_number (get_maxTotalScore (data questionnaire))))),
      js_or0 (get_riskScore (data eyeTracking)),
      js_or0 (get_riskScore (data facialAnalysis))]"

definition avgRisk :: "(AssessmentStage \<rightharpoonup> stageData) \<Rightarrow> jsnum" where
  "avgRisk data =
     js_div (foldl (\<lambda>sum score. js_add sum score) (Fin 0) (riskScores data))
            (num (length (riskScores data)))"

record OverallRisk =
  level :: riskLevel
  color :: string
  description :: string

definition calculateOverallRisk :: "(AssessmentStage \<rightharpoonup> stageData) \<Rightarrow> OverallRisk" where
  "calculateOverallRisk data =
     (if js_gt (avgRisk data) (Fin (6 / 10))
      then \<lparr>level = High, color = ''destructive'',
            description = ''Multiple indicators suggest potential ASD characteristics''\<rparr>
      else if js_gt (avgRisk data) (Fin (3 / 10))
      then \<lparr>level = Medium, color = ''warning'',
            description = ''Some indicators present, further evaluation recommended''\<rparr>
      else \<lparr>level = Low, color = ''success'',
            description = ''Minimal indicators detected in this assessment''\<rparr>)"

section \<open>The overall risk in binary64\<close>

text \<open>
  Rounding of a rational to the nearest binary64 number, ties to even. A positive value
  is written \<open>m * 2 ^ e\<close> with \<open>2 ^ 52 \<le> m < 2 ^ 53\<close>, or with \<open>e = -1074\<close> and a
  smaller \<open>m\<close> for a subnormal number; the significand \<open>m\<close> is rounded to an integer. A
  result of \<open>2 ^ 1024\<close> or more is an infinity.
\<close>

function scale_down :: "rat \<Rightarrow> int \<Rightarrow> rat \<times> int" where
  "scale_down m e = (if 2 ^ 53 \<le> m \<and> e < 972 then scale_down (m / 2) (e + 1) else (m, e))"
  by pat_completeness auto
termination
  by (relation "measure (\<lambda>(m, e). nat (972 - e))") auto

function scale_up :: "rat \<Rightarrow> int \<Rightarrow> rat \<times> int" where
  "scale_up m e = (if m < 2 ^ 52 \<and> - 1074 < e then scale_up (2 * m) (e - 1) else (m, e))"
  by pat_completeness auto
termination
  by (relation "measure (\<lambda>(m, e). nat (e + 1074))") auto

declare scale_down.simps [simp del] scale_up.simps [simp del]

definition round_half_even :: "rat \<Rightarrow> int" where
  "round_half_even m =
     (let n = \<lfloor>m\<rfloor>; r = m - of_int n
      in if r < 1 / 2 then n else if 1 / 2 < r then n + 1
         else if even n then n else n + 1)"

definition pow2 :: "int \<Rightarrow> rat" where
  "pow2 e = (if 0 \<le> e then 2 ^ nat e else 1 / 2 ^ nat (- e))"

definition binary64 :: "rat \<Rightarrow> jsnum" where
  "binary64 x =
     (if x = 0 then Fin 0
      else (case scale_down \<bar>x\<bar> 0 of (m1, e1) \<Rightarrow>
            (case scale_up m1 e1 of (m, e) \<Rightarrow>
               (let v = of_int (round_half_even m) * pow2 e
                in if 2 ^ 1024 \<le> v then (if 0 < x then PInf else NInf)
                   else Fin (if 0 < x then v else - v)))))"

fun to_binary64 :: "jsnum \<Rightarrow> jsnum" where
  "to_binary64 (Fin x) = binary64 x"
| "to_binary64 PInf = PInf"
| "to_binary64 NInf = NInf"
| "to_binary64 NaN = NaN"

text \<open>The binary64 operations round the exact result of their binary64 operands.\<close>

definition js_add64 :: "jsnum \<Rightarrow> jsnum \<Rightarrow> jsnum" where
  "js_add64 x y = to_binary64 (js_add x y)"

definition js_div64 :: "jsnum \<Rightarrow> jsnum \<Rightarrow> jsnum" where
  "js_div64 x y = to_binary64 (js_div x y)"

text \<open>
  Each entry of \<open>riskScores\<close> is one quotient of two integers (the total by the
  maximum, the number of true flags by the number of flags), or \<open>0\<close>, so the number
  the program holds is the rounding of the exact entry.
\<close>

definition riskScores64 :: "(AssessmentStage \<rightharpoonup> stageData) \<Rightarrow> jsnum list" where
  "riskScores64 data = map to_binary64 (riskScores data)"

text \<open>
  \<open>riskScores.reduce((sum, score) => sum + score, 0) / riskScores.length\<close>: the
  additions are made from left to right, starting from \<open>0\<close>, each of them rounded.
\<close>

definition avgRiskOf64 :: "jsnum list \<Rightarrow> jsnum" where
  "avgRiskOf64 scores =
     js_div64 (foldl (\<lambda>sum score. js_add64 sum score) (Fin 0) scores) (num (length scores))"

definition avgRisk64 :: "(AssessmentStage \<rightharpoonup> stageData) \<Rightarrow> jsnum" where
  "avgRisk64 data = avgRiskOf64 (riskScores64 data)"

text \<open>The thresholds \<open>0.6\<close> and \<open>0.3\<close> are the binary64 numbers of these literals.\<close>

definition riskLevelOf64 :: "jsnum \<Rightarrow> riskLevel" where
  "riskLevelOf64 s =
     (if js_gt s (binary64 (6 / 10)) then High
      else if js_gt s (binary64 (3 / 10)) then Medium
      else Low)"

section \<open>Auxiliary facts\<close>

lemma js_gt_Fin [simp]: "js_gt (Fin a) (Fin b) = (b < a)"
  by (simp add: js_gt_def)

lemma foldl_plus_sum_list: "foldl (+) (a::'a::comm_monoid_add) xs = a + sum_list xs"
  by (induction xs arbitrary: a) (simp_all add: ac_simps)

lemma riskLevelOf_Fin:
  "riskLevelOf (Fin r) = (if 6 / 10 < r then High else if 3 / 10 < r then Medium else Low)"
  by (simp add: riskLevelOf_def)

lemma riskLevelOf_iffs:
  "(riskLevelOf (Fin r) = High) = (6 / 10 < r)
   \<and> (riskLevelOf (Fin r) = Medium) = (3 / 10 < r \<and> r \<le> 6 / 10)
   \<and> (riskLevelOf (Fin r) = Low) = (r \<le> 3 / 10)
   \<and> riskLevelOf (Fin (6 / 10)) = Medium
   \<and> riskLevelOf (Fin (3 / 10)) = Low"
  by (auto simp add: riskLevelOf_Fin)

lemma indicatorRatio_Fin:
  "flags \<noteq> [] \<Longrightarrow>
   indicatorRatio flags = Fin (of_nat (length (filter (\<lambda>b. b) flags)) / of_nat (length flags))"
  by (simp add: indicatorRatio_def)

subsection \<open>The empty recordings\<close>

lemma empty_eye:
  "eye_stopRecording (recordEye [])
   = \<lparr>eye_metrics = \<lparr>avgFixationDuration = Fin 0, saccadicRate = Fin 0,
         blinkRatePerMinute = Fin 0, eye_gazeStability = Fin 0, eye_recordingDuration = 30\<rparr>,
      eye_indicators = \<lparr>longFixations = False, lowSaccadicRate = True,
         atypicalBlinking = True, poorGazeStability = True\<rparr>,
      eye_riskScore = Fin (3 / 4), eye_riskLevel = High\<rparr>"
  by (simp add: recordEye_def initialEyeMetrics_def eye_stopRecording_def eye_summary_def
      eye_asdIndicators_def eye_flags_def indicatorRatio_def riskLevelOf_def
      EYE_RECORDING_DURATION_def)

lemma totalEmotions_initial: "totalEmotions initialFacialMetrics = 0"
  by (simp add: totalEmotions_def initialFacialMetrics_def emotions_def)

lemma empty_face:
  "face_stopRecording (recordFace [])
   = \<lparr>face_metrics = \<lparr>emotionDistribution =
           [(neutral, Fin 0), (happy, Fin 0), (sad, Fin 0), (surprised, Fin 0),
            (angry, Fin 0), (fearful, Fin 0)],
         eyeContactRate = Fin 0, face_microExpressions = [], facialSymmetry = Fin 0,
         landmarksDetected = 0, face_recordingDuration = 45\<rparr>,
      face_indicators = \<lparr>limitedEmotionalRange = True, lowEyeContact = True,
         reducedMicroExpressions = True, facialAsymmetry = True,
         neutralExpressionDominance = False\<rparr>,
      face_riskScore = Fin (4 / 5), face_riskLevel = High\<rparr>"
  by (simp add: recordFace_def face_stopRecording_def face_asdIndicators_def
      face_emotionDistribution_def face_eyeContactRate_def totalEmotions_initial
      face_flags_def indicatorRatio_def riskLevelOf_def FACE_RECORDING_DURATION_def js_gt_def)
     (simp add: initialFacialMetrics_def emotions_def)

lemma empty_questionnaire:
  "questionnaireResult []
   = \<lparr>q_answers = [],
      q_categoryScores =
        [\<lparr>category = ''Social Communication'', score = 0, maxScore = 6, percentage = Fin 0\<rparr>,
         \<lparr>category = ''Repetitive Behaviors'', score = 0, maxScore = 3, percentage = Fin 0\<rparr>,
         \<lparr>category = ''Sensory Processing'', score = 0, maxScore = 3, percentage = Fin 0\<rparr>,
         \<lparr>category = ''Social Interaction'', score = 0, maxScore = 3, percentage = Fin 0\<rparr>,
         \<lparr>category = ''Communication'', score = 0, maxScore = 3, percentage = Fin 0\<rparr>],
      totalScore = 0, maxTotalScore = 18, q_riskLevel = Low\<rparr>"
  by (simp add: questionnaireResult_def categoryScores_def questions_def riskLevelOf_def)

lemma empty_eye_score: "eye_riskScore (eye_stopRecording (recordEye [])) = Fin (3 / 4)"
  by (simp add: empty_eye)

lemma empty_face_score: "face_riskScore (face_stopRecording (recordFace [])) = Fin (4 / 5)"
  by (simp add: empty_face)

subsection \<open>The eye-tracking summary is finite\<close>


lemma eye_metrics_stopRecording: "eye_metrics (eye_stopRecording m) = eye_summary m"
  by (simp add: eye_stopRecording_def Let_def)

subsection \<open>Counters of a recording\<close>

lemma foldl_eye_saccadic:
  "saccadicMovements (foldl simulateEyeTracking m samples)
     = saccadicMovements m + length (filter saccade samples)"
  by (induction samples arbitrary: m) (simp_all add: simulateEyeTracking_def)

lemma foldl_eye_blink:
  "blinkRate (foldl simulateEyeTracking m samples)
     = blinkRate m + length (filter blink samples)"
  by (induction samples arbitrary: m) (simp_all add: simulateEyeTracking_def)

lemma foldl_face_eyeContact:
  "eyeContactFrequency (foldl simulateFacialAnalysis m samples)
     = eyeContactFrequency m + length (filter eyeContact samples)"
  by (induction samples arbitrary: m) (simp_all add: simulateFacialAnalysis_def)



subsection \<open>The emotion tally\<close>






subsection \<open>The session handler\<close>

lemma findIndex_simps:
  "findIndex intro = -1" "findIndex questionnaire = 0" "findIndex eyeTracking = 1"
  "findIndex facialAnalysis = 2" "findIndex results = -1"
  by (simp_all add: findIndex_def stages_def)

lemma handleStageComplete_data:
  "assessmentData (handleStageComplete s d) = (assessmentData s)(currentStage s \<mapsto> d)"
  by (simp add: handleStageComplete_def Let_def)

lemma handleStageComplete_stage:
  "currentStage (handleStageComplete s d)
     = (case currentStage s of
          intro \<Rightarrow> questionnaire
        | questionnaire \<Rightarrow> eyeTracking
        | eyeTracking \<Rightarrow> facialAnalysis
        | facialAnalysis \<Rightarrow> results
        | results \<Rightarrow> questionnaire)"
  by (cases "currentStage s")
     (simp_all add: handleStageComplete_def Let_def findIndex_simps stages_def)

subsection \<open>Sums of scores\<close>

lemma js_add_commute: "js_add x y = js_add y x"
  by (cases x; cases y) simp_all

lemma js_add_zero_left: "js_add (Fin 0) x = x"
  by (cases x) simp_all

subsection \<open>Evaluating the rounding\<close>

lemma floor_rat_numeral: "\<lfloor>(numeral a :: rat) / numeral b\<rfloor> = numeral a div numeral b"
  using floor_divide_of_int_eq [of "numeral a" "numeral b", where ?'a = rat] by simp

lemmas binary64_eval =
  binary64_def scale_down.simps scale_up.simps round_half_even_def pow2_def Let_def
  floor_rat_numeral

lemma binary64_one: "binary64 1 = Fin 1"
  by (simp add: binary64_eval)

lemma binary64_half: "binary64 (1 / 2) = Fin (1 / 2)"
  by (simp add: binary64_eval)

lemma binary64_ninth: "binary64 (1 / 9) = Fin (2001599834386887 / 18014398509481984)"
  by (simp add: binary64_eval)

lemma binary64_two_fifths: "binary64 (2 / 5) = Fin (3602879701896397 / 9007199254740992)"
  by (simp add: binary64_eval)

lemma binary64_three_fifths: "binary64 (3 / 5) = Fin (5404319552844595 / 9007199254740992)"
  by (simp add: binary64_eval)

lemma binary64_four_fifths: "binary64 (4 / 5) = Fin (3602879701896397 / 4503599627370496)"
  by (simp add: binary64_eval)

lemma binary64_three_tenths: "binary64 (3 / 10) = Fin (5404319552844595 / 18014398509481984)"
  by (simp add: binary64_eval)

lemmas binary64_values =
  binary64_one binary64_half binary64_ninth binary64_two_fifths binary64_three_fifths
  binary64_four_fifths binary64_three_tenths

lemma avgRiskOf64_ninth_half_three_fifths:
  "avgRiskOf64 [binary64 (1 / 9), binary64 (1 / 2), binary64 (3 / 5)]
     = Fin (7272479398272357 / 18014398509481984)"
  by (simp add: binary64_values avgRiskOf64_def js_add64_def js_div64_def)
     (simp add: binary64_eval)

lemma avgRiskOf64_ninth_three_fifths_half:
  "avgRiskOf64 [binary64 (1 / 9), binary64 (3 / 5), binary64 (1 / 2)]
     = Fin (1818119849568089 / 4503599627370496)"
  by (simp add: binary64_values avgRiskOf64_def js_add64_def js_div64_def)
     (simp add: binary64_eval)

lemma avgRiskOf64_medium:
  "avgRiskOf64 [binary64 (2 / 5), binary64 (3 / 5), binary64 (4 / 5)]
     = Fin (5404319552844595 / 9007199254740992)"
  by (simp add: binary64_values avgRiskOf64_def js_add64_def js_div64_def)
     (simp add: binary64_eval)

lemma avgRiskOf64_high:
  "avgRiskOf64 [binary64 (2 / 5), binary64 (4 / 5), binary64 (3 / 5)]
     = Fin (1351079888211149 / 2251799813685248)"
  by (simp add: binary64_values avgRiskOf64_def js_add64_def js_div64_def)
     (simp add: binary64_eval)

text \<open>
  Where the sums are exact in binary64 the rounded average is the exact one: a single
  eye-tracking score of \<open>3/4\<close> averages to \<open>1/4\<close> in both.
\<close>

lemma avgRisk64_single_score:
  "avgRisk64 [eyeTracking \<mapsto> EyeTrackingData (eye_stopRecording (recordEye []))]
     = Fin (1 / 4)
   \<and> avgRisk [eyeTracking \<mapsto> EyeTrackingData (eye_stopRecording (recordEye []))]
     = Fin (1 / 4)"
  by (simp add: avgRisk64_def riskScores64_def avgRisk_def riskScores_def empty_eye_score
      avgRiskOf64_def js_add64_def js_div64_def)
     (simp add: binary64_eval)

subsection \<open>Rounding a binary64 number again\<close>

lemma pow2_powi: "pow2 e = 2 powi e"
  by (simp add: pow2_def power_int_def power_inverse inverse_eq_divide power_one_over)

lemma powi_step: "(2::rat) powi (e + 1) = 2 * 2 powi e"
  by (simp add: power_int_add)

lemma powi_step': "(2::rat) powi (e - 1) = 2 powi e / 2"
  by (simp add: power_int_diff)

lemma half_step: "(m / 2) * (2::rat) powi (e + 1) = m * 2 powi e"
proof -
  have "(m / 2) * (2::rat) powi (e + 1) = (m / 2) * (2 * 2 powi e)"
    by (simp only: powi_step)
  also have "\<dots> = m * 2 powi e"
    by simp
  finally show ?thesis .
qed

lemma double_step: "(2 * m) * (2::rat) powi (e - 1) = m * 2 powi e"
proof -
  have "(2 * m) * (2::rat) powi (e - 1) = (2 * m) * (2 powi e / 2)"
    by (simp only: powi_step')
  also have "\<dots> = m * 2 powi e"
    by simp
  finally show ?thesis .
qed

lemma scale_down_props:
  "scale_down m e = (m', e') \<Longrightarrow> 0 < m \<Longrightarrow>
     m' * 2 powi e' = m * 2 powi e \<and> 0 < m'
     \<and> (m' < 2 ^ 53 \<or> 972 \<le> e') \<and> (e \<le> e')"
proof (induction m e rule: scale_down.induct)
  case (1 m e)
  show ?case
  proof (cases "2 ^ 53 \<le> m \<and> e < 972")
    case True
    have "scale_down m e = scale_down (m / 2) (e + 1)"
      by (subst scale_down.simps [of m e]) (rule if_P [OF True])
    then have eq: "scale_down (m / 2) (e + 1) = (m', e')"
      using "1.prems"(1) by (simp only:)
    have pos: "0 < m / 2" using "1.prems"(2) by simp
    note ih = "1.IH" [OF True eq pos]
    from ih have a: "m' * 2 powi e' = (m / 2) * 2 powi (e + 1)" by (elim conjE)
    from ih have b: "0 < m'" by (elim conjE)
    from ih have c: "m' < 2 ^ 53 \<or> 972 \<le> e'" by (elim conjE)
    from ih have d: "e + 1 \<le> e'" by (elim conjE)
    have a': "m' * 2 powi e' = m * 2 powi e" using a by (simp only: half_step)
    have d': "e \<le> e'" using d by arith
    from a' b c d' show ?thesis by (intro conjI)
  next
    case False
    have "scale_down m e = (m, e)"
      by (subst scale_down.simps [of m e]) (rule if_not_P [OF False])
    then have "(m', e') = (m, e)"
      using "1.prems"(1) by (simp only:)
    then have me: "m' = m" "e' = e" by (simp_all only: prod.inject)
    have c: "m < 2 ^ 53 \<or> 972 \<le> e" using False by (simp only: de_Morgan_conj not_le not_less)
    show ?thesis unfolding me using "1.prems"(2) c by (intro conjI) (simp_all only: order_refl)
  qed
qed

lemma scale_up_props:
  "scale_up m e = (m', e') \<Longrightarrow> 0 < m \<Longrightarrow> - 1074 \<le> e \<Longrightarrow>
     m' * 2 powi e' = m * 2 powi e \<and> 0 < m' \<and> - 1074 \<le> e'
     \<and> (2 ^ 52 \<le> m' \<or> e' = - 1074) \<and> (m' < 2 ^ 53 \<or> (m' = m \<and> e' = e))"
proof (induction m e rule: scale_up.induct)
  case (1 m e)
  show ?case
  proof (cases "m < 2 ^ 52 \<and> - 1074 < e")
    case True
    have "scale_up m e = scale_up (2 * m) (e - 1)"
      by (subst scale_up.simps [of m e]) (rule if_P [OF True])
    then have eq: "scale_up (2 * m) (e - 1) = (m', e')"
      using "1.prems"(1) by (simp only:)
    have pos: "0 < 2 * m" using "1.prems"(2) by simp
    have lo: "- 1074 \<le> e - 1" using True by arith
    note ih = "1.IH" [OF True eq pos lo]
    from ih have a: "m' * 2 powi e' = (2 * m) * 2 powi (e - 1)" by (elim conjE)
    from ih have b: "0 < m'" by (elim conjE)
    from ih have c: "- 1074 \<le> e'" by (elim conjE)
    from ih have d: "2 ^ 52 \<le> m' \<or> e' = - 1074" by (elim conjE)
    from ih have f: "m' < 2 ^ 53 \<or> (m' = 2 * m \<and> e' = e - 1)" by (elim conjE)
    have a': "m' * 2 powi e' = m * 2 powi e" using a by (simp only: double_step)
    have m2: "2 * m < 2 ^ 53" using True by simp
    have f': "m' < 2 ^ 53 \<or> (m' = m \<and> e' = e)" using f m2 by blast
    from a' b c d f' show ?thesis by (intro conjI)
  next
    case False
    have "scale_up m e = (m, e)"
      by (subst scale_up.simps [of m e]) (rule if_not_P [OF False])
    then have "(m', e') = (m, e)"
      using "1.prems"(1) by (simp only:)
    then have me: "m' = m" "e' = e" by (simp_all only: prod.inject)
    have c: "2 ^ 52 \<le> m \<or> e = - 1074" using False "1.prems"(3) by force
    show ?thesis unfolding me using "1.prems"(2,3) c by (intro conjI) (simp_all only: simp_thms)
  qed
qed

lemma norm_props:
  assumes "0 < x" and "scale_down x 0 = (m1, e1)" and "scale_up m1 e1 = (m, e)"
  shows "m * 2 powi e = x \<and> 0 < m \<and> - 1074 \<le> e \<and> (2 ^ 52 \<le> m \<or> e = - 1074)
    \<and> (m < 2 ^ 53 \<or> 972 \<le> e)"
proof -
  note d = scale_down_props [OF assms(2) assms(1)]
  from d have d1: "m1 * 2 powi e1 = x * 2 powi 0" by (elim conjE)
  from d have d2: "0 < m1" by (elim conjE)
  from d have d3: "m1 < 2 ^ 53 \<or> 972 \<le> e1" by (elim conjE)
  from d have d4: "0 \<le> e1" by (elim conjE)
  have lo: "- 1074 \<le> e1" using d4 by arith
  note u = scale_up_props [OF assms(3) d2 lo]
  from u have u1: "m * 2 powi e = m1 * 2 powi e1" by (elim conjE)
  from u have u2: "0 < m" by (elim conjE)
  from u have u3: "- 1074 \<le> e" by (elim conjE)
  from u have u4: "2 ^ 52 \<le> m \<or> e = - 1074" by (elim conjE)
  from u have u5: "m < 2 ^ 53 \<or> (m = m1 \<and> e = e1)" by (elim conjE)
  have v: "m * 2 powi e = x"
    unfolding u1 d1 by simp
  have hi: "m < 2 ^ 53 \<or> 972 \<le> e"
    using u5 d3 by blast
  from v u2 u3 u4 hi show ?thesis by (intro conjI)
qed


lemma round_half_even_of_int: "round_half_even (of_int k) = k"
  by (simp add: round_half_even_def)

lemma round_half_even_bounds:
  "\<lfloor>m\<rfloor> \<le> round_half_even m \<and> round_half_even m \<le> \<lfloor>m\<rfloor> + 1"
  by (simp add: round_half_even_def Let_def)

lemma binary64_unfold:
  assumes "0 < x" and "scale_down x 0 = (m1, e1)" and "scale_up m1 e1 = (m, e)"
  shows "binary64 x =
           (if (2::rat) ^ 1024 \<le> of_int (round_half_even m) * 2 powi e then PInf
            else Fin (of_int (round_half_even m) * 2 powi e))"
proof -
  have ax: "\<bar>x\<bar> = x" using assms(1) by simp
  have nz: "x \<noteq> 0" using assms(1) by simp
  show ?thesis
    unfolding binary64_def ax assms(2) assms(3) pow2_powi Let_def prod.case
    using assms(1) nz by (simp only: if_False if_True)
qed

lemma binary64_pos_cases:
  assumes "0 < x"
  shows "binary64 x = PInf
       \<or> (\<exists>n e. binary64 x = Fin (of_int n * 2 powi e) \<and> 0 \<le> n \<and> n \<le> 2 ^ 53
              \<and> - 1074 \<le> e \<and> of_int n * (2::rat) powi e < 2 ^ 1024)"
proof -
  obtain m1 e1 where sd: "scale_down x 0 = (m1, e1)" by (cases "scale_down x 0")
  obtain m e where su: "scale_up m1 e1 = (m, e)" by (cases "scale_up m1 e1")
  note p = norm_props [OF assms sd su]
  from p have mpos: "0 < m" by (elim conjE)
  from p have elo: "- 1074 \<le> e" by (elim conjE)
  from p have hi: "m < 2 ^ 53 \<or> 972 \<le> e" by (elim conjE)
  define n where "n = round_half_even m"
  have u: "binary64 x =
           (if (2::rat) ^ 1024 \<le> of_int n * 2 powi e then PInf
            else Fin (of_int n * 2 powi e))"
    unfolding n_def by (rule binary64_unfold [OF assms sd su])
  show ?thesis
  proof (cases "(2::rat) ^ 1024 \<le> of_int n * 2 powi e")
    case True
    with u have "binary64 x = PInf" by (simp only: if_True)
    then show ?thesis by (rule disjI1)
  next
    case False
    with u have fin: "binary64 x = Fin (of_int n * 2 powi e)" by (simp only: if_False)
    have lt: "of_int n * (2::rat) powi e < 2 ^ 1024" using False by (simp only: not_le)
    have fl: "\<lfloor>m\<rfloor> \<le> n" "n \<le> \<lfloor>m\<rfloor> + 1"
      using round_half_even_bounds [of m] by (simp_all add: n_def)
    have "0 \<le> \<lfloor>m\<rfloor>" using mpos by simp
    then have n0: "0 \<le> n" using fl(1) by arith
    have mlt: "m < 2 ^ 53"
    proof (rule ccontr)
      assume "\<not> m < 2 ^ 53"
      then have mge: "2 ^ 53 \<le> m" by simp
      with hi have ege: "972 \<le> e" by simp
      have "(2::int) ^ 53 \<le> \<lfloor>m\<rfloor>"
        using mge by (simp add: le_floor_iff)
      then have nge: "(2::int) ^ 53 \<le> n" using fl(1) by arith
      then have nge': "(2::rat) ^ 53 \<le> of_int n"
        by (metis of_int_le_iff of_int_numeral of_int_power)
      have pge: "(2::rat) powi 972 \<le> 2 powi e"
        using ege by (intro power_int_increasing) simp_all
      have "(2::rat) ^ 53 * 2 powi 972 \<le> of_int n * 2 powi e"
        using nge' pge by (intro mult_mono) simp_all
      moreover have "(2::rat) ^ 1024 \<le> 2 ^ 53 * 2 powi 972"
        by simp
      ultimately have "(2::rat) ^ 1024 \<le> of_int n * 2 powi e" by (rule order_trans [rotated])
      with False show False by (rule notE)
    qed
    then have "\<lfloor>m\<rfloor> < 2 ^ 53"
      by (simp add: floor_less_iff)
    then have nhi: "n \<le> 2 ^ 53" using fl(2) by arith
    from fin n0 nhi elo lt show ?thesis by blast
  qed
qed


lemma binary64_zero: "binary64 0 = Fin 0"
  by (simp add: binary64_def)

lemma powi_nonneg_int: "0 \<le> k \<Longrightarrow> (2::rat) powi k = of_int (2 ^ nat k)"
  by (simp add: power_int_def)

lemma binary64_idem_pos:
  assumes "0 < n" and "n \<le> 2 ^ 53" and "- 1074 \<le> e"
    and "of_int n * (2::rat) powi e < 2 ^ 1024"
  shows "binary64 (of_int n * 2 powi e) = Fin (of_int n * 2 powi e)"
proof -
  let ?v = "of_int n * (2::rat) powi e"
  have vpos: "0 < ?v" using assms(1) by simp
  obtain m1 e1 where sd: "scale_down ?v 0 = (m1, e1)" by (cases "scale_down ?v 0")
  obtain m' e' where su: "scale_up m1 e1 = (m', e')" by (cases "scale_up m1 e1")
  note p = norm_props [OF vpos sd su]
  from p have val: "m' * 2 powi e' = ?v" by (elim conjE)
  from p have mpos: "0 < m'" by (elim conjE)
  from p have elo: "- 1074 \<le> e'" by (elim conjE)
  from p have lo: "2 ^ 52 \<le> m' \<or> e' = - 1074" by (elim conjE)
  have m'_eq: "m' = of_int n * 2 powi (e - e')"
  proof -
    have "m' = (m' * 2 powi e') * 2 powi (- e')"
      by (simp add: power_int_minus)
    also have "\<dots> = of_int n * (2 powi e * 2 powi (- e'))"
      by (simp only: val mult.assoc)
    also have "2 powi e * (2::rat) powi (- e') = 2 powi (e - e')"
      by (simp add: power_int_add [symmetric])
    finally show ?thesis .
  qed
  have int_m': "\<exists>k. m' = of_int k"
  proof (cases "e' \<le> e")
    case True
    then have "(2::rat) powi (e - e') = of_int (2 ^ nat (e - e'))"
      by (intro powi_nonneg_int) simp
    then have "m' = of_int (n * 2 ^ nat (e - e'))"
      unfolding m'_eq by (simp only: of_int_mult)
    then show ?thesis by (rule exI)
  next
    case False
    then have gt: "e < e'" by simp
    with assms(3) have "e' \<noteq> - 1074" by arith
    with lo have mge: "2 ^ 52 \<le> m'" by simp
    have n_eq: "of_int n = m' * (2::rat) powi (e' - e)"
    proof -
      have "m' * (2::rat) powi (e' - e) = of_int n * (2 powi (e - e') * 2 powi (e' - e))"
        unfolding m'_eq by (simp only: mult.assoc)
      also have "2 powi (e - e') * (2::rat) powi (e' - e) = 1"
        by (simp add: power_int_add [symmetric])
      finally show ?thesis by simp
    qed
    have e1: "e' - e = 1"
    proof (rule ccontr)
      assume "e' - e \<noteq> 1"
      with gt have "2 \<le> e' - e" by arith
      then have "(2::rat) powi 2 \<le> 2 powi (e' - e)"
        by (intro power_int_increasing) simp_all
      then have four: "(4::rat) \<le> 2 powi (e' - e)" by simp
      have "(2::rat) ^ 52 * 4 \<le> m' * 2 powi (e' - e)"
        using mge four by (intro mult_mono) simp_all
      then have "(2::rat) ^ 54 \<le> of_int n" unfolding n_eq by simp
      moreover have "of_int n \<le> (2::rat) ^ 53"
        using assms(2) by (metis of_int_le_iff of_int_numeral of_int_power)
      ultimately show False by simp
    qed
    have n2: "of_int n = 2 * m'" unfolding n_eq e1 by simp
    have "(2::rat) ^ 53 \<le> of_int n" unfolding n2 using mge by simp
    then have "(2::int) ^ 53 \<le> n"
      by (metis of_int_le_iff of_int_numeral of_int_power)
    with assms(2) have "n = 2 ^ 53" by arith
    then have "m' = of_int (2 ^ 52)" using n2 by simp
    then show ?thesis by (rule exI)
  qed
  then obtain k where k: "m' = of_int k" ..
  have r: "round_half_even m' = k" unfolding k by (rule round_half_even_of_int)
  have "binary64 ?v =
           (if (2::rat) ^ 1024 \<le> of_int (round_half_even m') * 2 powi e' then PInf
            else Fin (of_int (round_half_even m') * 2 powi e'))"
    by (rule binary64_unfold [OF vpos sd su])
  also have "of_int (round_half_even m') * (2::rat) powi e' = ?v"
    unfolding r k [symmetric] by (rule val)
  finally show ?thesis using assms(4) by (simp only: not_le [symmetric] if_False)
qed

lemma binary64_neg:
  "x < 0 \<Longrightarrow>
     binary64 x = (case binary64 (- x) of Fin v \<Rightarrow> Fin (- v) | PInf \<Rightarrow> NInf
                   | NInf \<Rightarrow> PInf | NaN \<Rightarrow> NaN)"
  by (cases "scale_down (- x) 0"; cases "scale_up (fst (scale_down (- x) 0)) (snd (scale_down (- x) 0))")
     (simp add: binary64_def Let_def)

lemma binary64_idem_nonneg:
  assumes "0 \<le> x"
  shows "to_binary64 (binary64 x) = binary64 x"
proof (cases "x = 0")
  case True
  then show ?thesis by (simp add: binary64_zero)
next
  case False
  with assms have pos: "0 < x" by simp
  from binary64_pos_cases [OF pos] show ?thesis
  proof
    assume "binary64 x = PInf"
    then show ?thesis by simp
  next
    assume "\<exists>n e. binary64 x = Fin (of_int n * 2 powi e) \<and> 0 \<le> n \<and> n \<le> 2 ^ 53
              \<and> - 1074 \<le> e \<and> of_int n * (2::rat) powi e < 2 ^ 1024"
    then obtain n e where b: "binary64 x = Fin (of_int n * 2 powi e)" and n0: "0 \<le> n"
      and nhi: "n \<le> 2 ^ 53" and elo: "- 1074 \<le> e"
      and lt: "of_int n * (2::rat) powi e < 2 ^ 1024"
      by blast
    show ?thesis
    proof (cases "n = 0")
      case True
      then show ?thesis unfolding b by (simp add: binary64_zero)
    next
      case False
      with n0 have "0 < n" by simp
      from binary64_idem_pos [OF this nhi elo lt] show ?thesis
        unfolding b by simp
    qed
  qed
qed


lemma binary64_idem: "to_binary64 (binary64 x) = binary64 x"
proof (cases "0 \<le> x")
  case True
  then show ?thesis by (rule binary64_idem_nonneg)
next
  case False
  then have neg: "x < 0" and pos: "0 < - x" by simp_all
  note n = binary64_neg [OF neg]
  from binary64_pos_cases [OF pos] show ?thesis
  proof
    assume "binary64 (- x) = PInf"
    then show ?thesis unfolding n by simp
  next
    assume "\<exists>n e. binary64 (- x) = Fin (of_int n * 2 powi e) \<and> 0 \<le> n \<and> n \<le> 2 ^ 53
              \<and> - 1074 \<le> e \<and> of_int n * (2::rat) powi e < 2 ^ 1024"
    then obtain k e where b: "binary64 (- x) = Fin (of_int k * 2 powi e)" and k0: "0 \<le> k"
      by blast
    define v where "v = of_int k * (2::rat) powi e"
    have bv: "binary64 (- x) = Fin v" unfolding v_def by (rule b)
    have v0: "0 \<le> v" unfolding v_def using k0 by simp
    have "- x \<ge> 0" using pos by simp
    from binary64_idem_nonneg [OF this] have idem: "binary64 v = Fin v"
      unfolding bv by simp
    have x_eq: "binary64 x = Fin (- v)" unfolding n bv by simp
    show ?thesis
    proof (cases "v = 0")
      case True
      then show ?thesis unfolding x_eq by (simp add: binary64_zero)
    next
      case False
      with v0 have "- v < 0" by simp
      from binary64_neg [OF this] have "binary64 (- v) = Fin (- v)"
        by (simp add: idem)
      then show ?thesis unfolding x_eq by simp
    qed
  qed
qed

lemma to_binary64_idem: "to_binary64 (to_binary64 y) = to_binary64 y"
  by (cases y) (simp_all add: binary64_idem)

subsection \<open>Completion events\<close>

lemma onComplete_data:
  "assessmentData (onComplete c s d) = (assessmentData s)(c \<mapsto> d)"
  by (simp add: onComplete_def handleStageComplete_data)

lemma onComplete_stage:
  "currentStage (onComplete c s d)
     = (case c of
          intro \<Rightarrow> questionnaire
        | questionnaire \<Rightarrow> eyeTracking
        | eyeTracking \<Rightarrow> facialAnalysis
        | facialAnalysis \<Rightarrow> results
        | results \<Rightarrow> questionnaire)"
  by (simp add: onComplete_def handleStageComplete_stage)

lemma questionnaire_totals:
  "totalScore (questionnaireResult ans) = sum_list (map snd ans)"
  "maxTotalScore (questionnaireResult ans) = 18"
  "q_riskLevel (questionnaireResult ans)
     = riskLevelOf (Fin (of_nat (sum_list (map snd ans)) / 18))"
  by (simp_all add: questionnaireResult_def Let_def foldl_plus_sum_list questions_def)

section \<open>The overall risk score\<close>

text \<open>
  With the eye-tracking result of an empty recording (risk score \<open>3/4\<close>) as the only
  stage result, \<open>calculateOverallRisk\<close> averages \<open>[0, 3/4, 0]\<close>: the two missing
  stages enter the sum as \<open>0\<close> and the divisor is \<open>3\<close>, so the average is \<open>1/4\<close> and
  not the single available score.
\<close>

theorem single_score_divided_by_three:
  "riskScores (assessmentData (handleStageComplete (initialSession\<lparr>currentStage := eyeTracking\<rparr>)
       (EyeTrackingData (eye_stopRecording (recordEye [])))))
     = [Fin 0, Fin (3 / 4), Fin 0]
   \<and> avgRisk (assessmentData (handleStageComplete (initialSession\<lparr>currentStage := eyeTracking\<rparr>)
       (EyeTrackingData (eye_stopRecording (recordEye [])))))
     = Fin (1 / 4)
   \<and> avgRisk (assessmentData (handleStageComplete (initialSession\<lparr>currentStage := eyeTracking\<rparr>)
       (EyeTrackingData (eye_stopRecording (recordEye [])))))
     \<noteq> eye_riskScore (eye_stopRecording (recordEye []))"
  by (simp add: avgRisk_def riskScores_def handleStageComplete_data initialSession_def
      empty_eye_score)

text \<open>
  Claim C1, as the code has it: the overall score is the sum of the three per-stage
  scores divided by \<open>3\<close>, where a stage without a result counts as \<open>0\<close>. The score of
  the questionnaire is \<open>totalScore / maxTotalScore\<close>, the score of a timed stage is its
  \<open>riskScore\<close>. With all three stages available this is their arithmetic mean; with
  one available score \<open>S\<close> it is \<open>S / 3\<close>.
\<close>

theorem overall_score_missing_as_zero:
  assumes "data questionnaire = None \<and> sq = 0
           \<or> (\<exists>q. data questionnaire = Some (QuestionnaireData q) \<and> 0 < maxTotalScore q
                   \<and> sq = of_nat (totalScore q) / of_nat (maxTotalScore q))"
    and "data eyeTracking = None \<and> se = 0
         \<or> (\<exists>e. data eyeTracking = Some (EyeTrackingData e) \<and> eye_riskScore e = Fin se)"
    and "data facialAnalysis = None \<and> sf = 0
         \<or> (\<exists>f. data facialAnalysis = Some (FacialAnalysisData f) \<and> face_riskScore f = Fin sf)"
  shows "avgRisk data = Fin ((sq + se + sf) / 3)"
proof -
  have q: "js_or0 (Some (js_div (to_number (get_totalScore (data questionnaire)))
                           (to_number (get_maxTotalScore (data questionnaire))))) = Fin sq"
    using assms(1) by auto
  have e: "js_or0 (get_riskScore (data eyeTracking)) = Fin se"
    using assms(2) by auto
  have f: "js_or0 (get_riskScore (data facialAnalysis)) = Fin sf"
    using assms(3) by auto
  show ?thesis
    unfolding avgRisk_def riskScores_def q e f by simp
qed

theorem overall_score_missing_as_zero_witness:
  "avgRisk [eyeTracking \<mapsto> EyeTrackingData (eye_stopRecording (recordEye []))]
     = Fin ((0 + 3 / 4 + 0) / 3)"
  using overall_score_missing_as_zero
    [of "[eyeTracking \<mapsto> EyeTrackingData (eye_stopRecording (recordEye []))]" 0 "3 / 4" 0]
  by (simp add: empty_eye_score)

section \<open>Empty recordings\<close>

text \<open>
  A recording stopped before the first tick has an all-zero summary, and the
  eye-tracking classifier rates it High, not Low: a saccadic rate of \<open>0\<close>, a blink rate
  of \<open>0\<close> and a gaze stability of \<open>0\<close> are each below their threshold.
\<close>

theorem empty_eye_recording_not_low:
  "eye_riskLevel (eye_stopRecording (recordEye [])) \<noteq> Low"
  by (simp add: empty_eye)

text \<open>
  Claim C2, as the code has it: aggregating an empty sample sequence gives a summary
  whose rates, counts and ratios are all \<open>0\<close>, without a failure (the average fixation
  duration \<open>0 / 0\<close> is replaced by \<open>0\<close>, the percentages of an empty tally are \<open>0\<close>).
  Classifying it gives High for eye tracking (three of four flags, score \<open>3/4\<close>) and for
  facial analysis (four of five flags, score \<open>4/5\<close>; \<open>neutralExpressionDominance\<close> is
  false), and Low for the questionnaire without answers.
\<close>

theorem empty_samples_summary_and_level:
  "eye_stopRecording (recordEye [])
   = \<lparr>eye_metrics = \<lparr>avgFixationDuration = Fin 0, saccadicRate = Fin 0,
         blinkRatePerMinute = Fin 0, eye_gazeStability = Fin 0, eye_recordingDuration = 30\<rparr>,
      eye_indicators = \<lparr>longFixations = False, lowSaccadicRate = True,
         atypicalBlinking = True, poorGazeStability = True\<rparr>,
      eye_riskScore = Fin (3 / 4), eye_riskLevel = High\<rparr>
   \<and> face_stopRecording (recordFace [])
   = \<lparr>face_metrics = \<lparr>emotionDistribution =
           [(neutral, Fin 0), (happy, Fin 0), (sad, Fin 0), (surprised, Fin 0),
            (angry, Fin 0), (fearful, Fin 0)],
         eyeContactRate = Fin 0, face_microExpressions = [], facialSymmetry = Fin 0,
         landmarksDetected = 0, face_recordingDuration = 45\<rparr>,
      face_indicators = \<lparr>limitedEmotionalRange = True, lowEyeContact = True,
         reducedMicroExpressions = True, facialAsymmetry = True,
         neutralExpressionDominance = False\<rparr>,
      face_riskScore = Fin (4 / 5), face_riskLevel = High\<rparr>
   \<and> totalScore (questionnaireResult []) = 0
   \<and> map score (q_categoryScores (questionnaireResult [])) = [0, 0, 0, 0, 0]
   \<and> map percentage (q_categoryScores (questionnaireResult []))
       = [Fin 0, Fin 0, Fin 0, Fin 0, Fin 0]
   \<and> q_riskLevel (questionnaireResult []) = Low"
  by (simp add: empty_eye empty_face empty_questionnaire)

section \<open>Stage completion\<close>

text \<open>
  The eye-tracking screen is stopped twice within two seconds, before the first tick
  and after one tick, so two completion calls are pending. The first one stores the
  result of the empty recording and moves the session to the facial analysis. The
  second one is then a completion event of the eye tracking while the pointer is at the
  facial analysis: it is not rejected, and it replaces the stored eye-tracking result,
  so the result mapping changes.
\<close>

theorem late_completion_accepted:
  "currentStage
       (onComplete eyeTracking
          (onComplete questionnaire (beginAssessment initialSession)
             (QuestionnaireData (questionnaireResult [(1, 1), (2, 1), (3, 1), (4, 1), (5, 1), (6, 1)])))
          (EyeTrackingData (eye_stopRecording (recordEye []))))
     = facialAnalysis
   \<and> eyeTracking
     \<noteq> currentStage
         (onComplete eyeTracking
          (onComplete questionnaire (beginAssessment initialSession)
             (QuestionnaireData (questionnaireResult [(1, 1), (2, 1), (3, 1), (4, 1), (5, 1), (6, 1)])))
          (EyeTrackingData (eye_stopRecording (recordEye []))))
   \<and> assessmentData
       (onComplete eyeTracking
          (onComplete eyeTracking
          (onComplete questionnaire (beginAssessment initialSession)
             (QuestionnaireData (questionnaireResult [(1, 1), (2, 1), (3, 1), (4, 1), (5, 1), (6, 1)])))
          (EyeTrackingData (eye_stopRecording (recordEye []))))
          (EyeTrackingData (eye_stopRecording (recordEye
            [\<lparr>fixationTime = 1500, saccade = False, blink = False, gaze = 1 / 2\<rparr>]))))
     \<noteq> assessmentData
         (onComplete eyeTracking
          (onComplete questionnaire (beginAssessment initialSession)
             (QuestionnaireData (questionnaireResult [(1, 1), (2, 1), (3, 1), (4, 1), (5, 1), (6, 1)])))
          (EyeTrackingData (eye_stopRecording (recordEye []))))
   \<and> assessmentData
       (onComplete eyeTracking
          (onComplete eyeTracking
          (onComplete questionnaire (beginAssessment initialSession)
             (QuestionnaireData (questionnaireResult [(1, 1), (2, 1), (3, 1), (4, 1), (5, 1), (6, 1)])))
          (EyeTrackingData (eye_stopRecording (recordEye []))))
          (EyeTrackingData (eye_stopRecording (recordEye
            [\<lparr>fixationTime = 1500, saccade = False, blink = False, gaze = 1 / 2\<rparr>])))) eyeTracking
     = Some (EyeTrackingData (eye_stopRecording (recordEye
            [\<lparr>fixationTime = 1500, saccade = False, blink = False, gaze = 1 / 2\<rparr>])))"
proof -
  have differ: "eye_stopRecording (recordEye
            [\<lparr>fixationTime = 1500, saccade = False, blink = False, gaze = 1 / 2\<rparr>])
        \<noteq> eye_stopRecording (recordEye [])"
  proof
    assume "eye_stopRecording (recordEye
            [\<lparr>fixationTime = 1500, saccade = False, blink = False, gaze = 1 / 2\<rparr>])
        = eye_stopRecording (recordEye [])"
    then have "eye_gazeStability (eye_metrics (eye_stopRecording (recordEye
            [\<lparr>fixationTime = 1500, saccade = False, blink = False, gaze = 1 / 2\<rparr>])))
        = eye_gazeStability (eye_metrics (eye_stopRecording (recordEye [])))"
      by (rule arg_cong)
    then show False
      by (simp add: eye_metrics_stopRecording eye_summary_def recordEye_def
          simulateEyeTracking_def initialEyeMetrics_def)
  qed
  have "assessmentData
       (onComplete eyeTracking
          (onComplete eyeTracking
          (onComplete questionnaire (beginAssessment initialSession)
             (QuestionnaireData (questionnaireResult [(1, 1), (2, 1), (3, 1), (4, 1), (5, 1), (6, 1)])))
          (EyeTrackingData (eye_stopRecording (recordEye []))))
          (EyeTrackingData (eye_stopRecording (recordEye
            [\<lparr>fixationTime = 1500, saccade = False, blink = False, gaze = 1 / 2\<rparr>])))) eyeTracking
     \<noteq> assessmentData
         (onComplete eyeTracking
          (onComplete questionnaire (beginAssessment initialSession)
             (QuestionnaireData (questionnaireResult [(1, 1), (2, 1), (3, 1), (4, 1), (5, 1), (6, 1)])))
          (EyeTrackingData (eye_stopRecording (recordEye [])))) eyeTracking"
    using differ by (simp add: onComplete_data)
  then have "assessmentData
       (onComplete eyeTracking
          (onComplete eyeTracking
          (onComplete questionnaire (beginAssessment initialSession)
             (QuestionnaireData (questionnaireResult [(1, 1), (2, 1), (3, 1), (4, 1), (5, 1), (6, 1)])))
          (EyeTrackingData (eye_stopRecording (recordEye []))))
          (EyeTrackingData (eye_stopRecording (recordEye
            [\<lparr>fixationTime = 1500, saccade = False, blink = False, gaze = 1 / 2\<rparr>]))))
     \<noteq> assessmentData
         (onComplete eyeTracking
          (onComplete questionnaire (beginAssessment initialSession)
             (QuestionnaireData (questionnaireResult [(1, 1), (2, 1), (3, 1), (4, 1), (5, 1), (6, 1)])))
          (EyeTrackingData (eye_stopRecording (recordEye []))))"
    by metis
  then show ?thesis
    by (simp add: onComplete_data onComplete_stage)
qed

text \<open>
  Claim C3, as the code has it: no completion event is rejected, whether or not its
  stage is the one at the current pointer; the handler has no stage check and no
  invalid-transition result. The completion event of a stage \<open>c\<close> (questionnaire, eye
  tracking or facial analysis) stores its payload as the result of \<open>c\<close> and sets the
  pointer to the stage after \<open>c\<close> (to the results after the facial analysis). For an
  event of the stage at the current pointer this moves the pointer forward by exactly
  one position.
\<close>

theorem completion_never_rejected:
  "c \<in> set stages \<Longrightarrow>
     assessmentData (onComplete c s d) c = Some d
     \<and> currentStage (onComplete c s d)
         = (case c of
              questionnaire \<Rightarrow> eyeTracking
            | eyeTracking \<Rightarrow> facialAnalysis
            | _ \<Rightarrow> results)"
  by (auto simp add: onComplete_data onComplete_stage stages_def)

theorem completion_never_rejected_witness:
  "eyeTracking \<in> set stages
   \<and> assessmentData
       (onComplete eyeTracking
          (onComplete eyeTracking
          (onComplete questionnaire (beginAssessment initialSession)
             (QuestionnaireData (questionnaireResult [(1, 1), (2, 1), (3, 1), (4, 1), (5, 1), (6, 1)])))
          (EyeTrackingData (eye_stopRecording (recordEye []))))
          (EyeTrackingData (eye_stopRecording (recordEye
            [\<lparr>fixationTime = 1500, saccade = False, blink = False, gaze = 1 / 2\<rparr>])))) eyeTracking
     = Some (EyeTrackingData (eye_stopRecording (recordEye
            [\<lparr>fixationTime = 1500, saccade = False, blink = False, gaze = 1 / 2\<rparr>])))
   \<and> currentStage
       (onComplete eyeTracking
          (onComplete eyeTracking
          (onComplete questionnaire (beginAssessment initialSession)
             (QuestionnaireData (questionnaireResult [(1, 1), (2, 1), (3, 1), (4, 1), (5, 1), (6, 1)])))
          (EyeTrackingData (eye_stopRecording (recordEye []))))
          (EyeTrackingData (eye_stopRecording (recordEye
            [\<lparr>fixationTime = 1500, saccade = False, blink = False, gaze = 1 / 2\<rparr>]))))
     = facialAnalysis"
proof -
  have h: "eyeTracking \<in> set stages"
    by (simp add: stages_def)
  from completion_never_rejected [OF h] h show ?thesis
    by simp
qed

section \<open>Risk score and risk level of an indicator set\<close>

text \<open>
  Claim C4: for every non-empty indicator set the risk score is the number of true flags
  divided by the number of flags and lies in \<open>[0, 1]\<close>; the level is High iff the score
  exceeds \<open>0.6\<close>, Medium iff it exceeds \<open>0.3\<close> and is at most \<open>0.6\<close>, Low iff it is at most
  \<open>0.3\<close>; a score of exactly \<open>0.6\<close> is Medium and a score of exactly \<open>0.3\<close> is Low. Both
  timed components compute their score and level in this way from their indicators:
  the flags are the four, respectively five, fields of the indicator object, and the
  score is the number of true fields divided by \<open>4\<close>, respectively \<open>5\<close>.
\<close>

theorem indicator_score_and_level:
  assumes "flags \<noteq> []"
  shows "indicatorRatio flags
           = Fin (of_nat (length (filter (\<lambda>b. b) flags)) / of_nat (length flags))
       \<and> (0::rat) \<le> of_nat (length (filter (\<lambda>b. b) flags)) / of_nat (length flags)
       \<and> of_nat (length (filter (\<lambda>b. b) flags)) / of_nat (length flags) \<le> (1::rat)
       \<and> (riskLevelOf (indicatorRatio flags) = High)
           = ((6 / 10 :: rat) < of_nat (length (filter (\<lambda>b. b) flags)) / of_nat (length flags))
       \<and> (riskLevelOf (indicatorRatio flags) = Medium)
           = ((3 / 10 :: rat) < of_nat (length (filter (\<lambda>b. b) flags)) / of_nat (length flags)
              \<and> of_nat (length (filter (\<lambda>b. b) flags)) / of_nat (length flags) \<le> (6 / 10 :: rat))
       \<and> (riskLevelOf (indicatorRatio flags) = Low)
           = (of_nat (length (filter (\<lambda>b. b) flags)) / of_nat (length flags) \<le> (3 / 10 :: rat))
       \<and> riskLevelOf (Fin (6 / 10)) = Medium
       \<and> riskLevelOf (Fin (3 / 10)) = Low
       \<and> eye_riskScore (eye_stopRecording em)
           = indicatorRatio (eye_flags (eye_indicators (eye_stopRecording em)))
       \<and> eye_riskLevel (eye_stopRecording em) = riskLevelOf (eye_riskScore (eye_stopRecording em))
       \<and> face_riskScore (face_stopRecording fm)
           = indicatorRatio (face_flags (face_indicators (face_stopRecording fm)))
       \<and> face_riskLevel (face_stopRecording fm)
           = riskLevelOf (face_riskScore (face_stopRecording fm))
       \<and> eye_flags ei
           = [longFixations ei, lowSaccadicRate ei, atypicalBlinking ei, poorGazeStability ei]
       \<and> face_flags fi
           = [limitedEmotionalRange fi, lowEyeContact fi, reducedMicroExpressions fi,
              facialAsymmetry fi, neutralExpressionDominance fi]
       \<and> eye_riskScore (eye_stopRecording em)
           = Fin (of_nat (length (filter (\<lambda>b. b)
                    [longFixations (eye_indicators (eye_stopRecording em)),
                     lowSaccadicRate (eye_indicators (eye_stopRecording em)),
                     atypicalBlinking (eye_indicators (eye_stopRecording em)),
                     poorGazeStability (eye_indicators (eye_stopRecording em))])) / 4)
       \<and> face_riskScore (face_stopRecording fm)
           = Fin (of_nat (length (filter (\<lambda>b. b)
                    [limitedEmotionalRange (face_indicators (face_stopRecording fm)),
                     lowEyeContact (face_indicators (face_stopRecording fm)),
                     reducedMicroExpressions (face_indicators (face_stopRecording fm)),
                     facialAsymmetry (face_indicators (face_stopRecording fm)),
                     neutralExpressionDominance (face_indicators (face_stopRecording fm))])) / 5)"
proof -
  let ?r = "of_nat (length (filter (\<lambda>b. b) flags)) / of_nat (length flags) :: rat"
  have r: "indicatorRatio flags = Fin ?r"
    using assms by (rule indicatorRatio_Fin)
  have len: "(0::rat) < of_nat (length flags)"
    using assms by simp
  have "length (filter (\<lambda>b. b) flags) \<le> length flags"
    by (rule length_filter_le)
  then have le: "(of_nat (length (filter (\<lambda>b. b) flags)) :: rat) \<le> of_nat (length flags)"
    by (simp only: of_nat_le_iff)
  have lo: "0 \<le> ?r" by simp
  have hi: "?r \<le> 1" using len le by (simp add: divide_le_eq_1)
  have generic: "indicatorRatio flags = Fin ?r \<and> 0 \<le> ?r \<and> ?r \<le> 1
       \<and> (riskLevelOf (indicatorRatio flags) = High) = (6 / 10 < ?r)
       \<and> (riskLevelOf (indicatorRatio flags) = Medium) = (3 / 10 < ?r \<and> ?r \<le> 6 / 10)
       \<and> (riskLevelOf (indicatorRatio flags) = Low) = (?r \<le> 3 / 10)
       \<and> riskLevelOf (Fin (6 / 10)) = Medium
       \<and> riskLevelOf (Fin (3 / 10)) = Low"
    unfolding r using lo hi riskLevelOf_iffs [of ?r] by (simp only: simp_thms)
  have components:
    "eye_riskScore (eye_stopRecording em)
       = indicatorRatio (eye_flags (eye_indicators (eye_stopRecording em)))
     \<and> eye_riskLevel (eye_stopRecording em) = riskLevelOf (eye_riskScore (eye_stopRecording em))
     \<and> face_riskScore (face_stopRecording fm)
       = indicatorRatio (face_flags (face_indicators (face_stopRecording fm)))
     \<and> face_riskLevel (face_stopRecording fm)
       = riskLevelOf (face_riskScore (face_stopRecording fm))"
    by (simp add: eye_stopRecording_def face_stopRecording_def Let_def)
  have flags: "eye_flags ei
           = [longFixations ei, lowSaccadicRate ei, atypicalBlinking ei, poorGazeStability ei]
       \<and> face_flags fi
           = [limitedEmotionalRange fi, lowEyeContact fi, reducedMicroExpressions fi,
              facialAsymmetry fi, neutralExpressionDominance fi]"
    by (simp add: eye_flags_def face_flags_def)
  have eye_score: "eye_riskScore (eye_stopRecording em)
           = Fin (of_nat (length (filter (\<lambda>b. b)
                    [longFixations (eye_indicators (eye_stopRecording em)),
                     lowSaccadicRate (eye_indicators (eye_stopRecording em)),
                     atypicalBlinking (eye_indicators (eye_stopRecording em)),
                     poorGazeStability (eye_indicators (eye_stopRecording em))])) / 4)"
    by (simp add: eye_stopRecording_def Let_def indicatorRatio_def eye_flags_def)
  have face_score: "face_riskScore (face_stopRecording fm)
           = Fin (of_nat (length (filter (\<lambda>b. b)
                    [limitedEmotionalRange (face_indicators (face_stopRecording fm)),
                     lowEyeContact (face_indicators (face_stopRecording fm)),
                     reducedMicroExpressions (face_indicators (face_stopRecording fm)),
                     facialAsymmetry (face_indicators (face_stopRecording fm)),
                     neutralExpressionDominance (face_indicators (face_stopRecording fm))])) / 5)"
    by (simp add: face_stopRecording_def Let_def indicatorRatio_def face_flags_def)
  from generic components flags eye_score face_score show ?thesis by blast
qed

theorem indicator_score_and_level_witness:
  "[True, True, True, False, False] \<noteq> []
   \<and> indicatorRatio [True, True, True, False, False] = Fin (6 / 10)
   \<and> riskLevelOf (indicatorRatio [True, True, True, False, False]) = Medium"
  using indicator_score_and_level [of "[True, True, True, False, False]"]
  by simp

section \<open>The questionnaire's risk level\<close>

text \<open>
  Claim C5: the questionnaire has no indicator flags; completing the last question
  derives the risk level directly from \<open>totalScore / maxTotalScore\<close> (with
  \<open>maxTotalScore = 18\<close>) by the thresholds High above \<open>0.6\<close>, Medium above \<open>0.3\<close>, Low
  otherwise. A total score of \<open>6\<close> out of \<open>18\<close> gives Medium.
\<close>

theorem questionnaire_level:
  "handleNext 5 ans = Inr (questionnaireResult ans)
   \<and> maxTotalScore (questionnaireResult ans) = 18
   \<and> totalScore (questionnaireResult ans) = sum_list (map snd ans)
   \<and> q_riskLevel (questionnaireResult ans)
       = (if 6 / 10 < rat_of_nat (totalScore (questionnaireResult ans))
                        / of_nat (maxTotalScore (questionnaireResult ans)) then High
          else if 3 / 10 < rat_of_nat (totalScore (questionnaireResult ans))
                        / of_nat (maxTotalScore (questionnaireResult ans)) then Medium
          else Low)
   \<and> (totalScore (questionnaireResult ans) = 6
        \<longrightarrow> q_riskLevel (questionnaireResult ans) = Medium)"
  by (simp add: questionnaire_totals riskLevelOf_Fin handleNext_def questions_def)

theorem questionnaire_level_witness:
  "totalScore (questionnaireResult [(1, 1), (2, 1), (3, 1), (4, 1), (5, 1), (6, 1)]) = 6
   \<and> maxTotalScore (questionnaireResult [(1, 1), (2, 1), (3, 1), (4, 1), (5, 1), (6, 1)]) = 18
   \<and> q_riskLevel (questionnaireResult [(1, 1), (2, 1), (3, 1), (4, 1), (5, 1), (6, 1)]) = Medium"
  using questionnaire_level [of "[(1, 1), (2, 1), (3, 1), (4, 1), (5, 1), (6, 1)]"]
  by simp

section \<open>The eye-tracking indicators\<close>


section \<open>The facial-analysis indicators\<close>



section \<open>Rates over the configured duration\<close>

text \<open>
  Claim C8: the rates of the timed stages are normalised by the configured recording
  duration (30 seconds for eye tracking, 45 seconds for facial analysis), whatever the
  number of samples: for every sample sequence the saccadic rate is the number of
  saccades divided by \<open>duration / 60\<close>, the blink rate per minute is the number of
  blinks divided by the duration, times \<open>60\<close>, and the eye-contact rate is the number of
  eye-contact ticks divided by the duration, times \<open>100\<close>.
\<close>

theorem rates_use_configured_duration:
  "saccadicRate (eye_metrics (eye_stopRecording (recordEye samples)))
     = Fin (of_nat (length (filter saccade samples)) / (of_nat EYE_RECORDING_DURATION / 60))
   \<and> blinkRatePerMinute (eye_metrics (eye_stopRecording (recordEye samples)))
     = Fin (of_nat (length (filter blink samples)) / of_nat EYE_RECORDING_DURATION * 60)
   \<and> eyeContactRate (face_metrics (face_stopRecording (recordFace fsamples)))
     = Fin (of_nat (length (filter eyeContact fsamples)) / of_nat FACE_RECORDING_DURATION * 100)
   \<and> eye_recordingDuration (eye_metrics (eye_stopRecording (recordEye samples))) = 30
   \<and> face_recordingDuration (face_metrics (face_stopRecording (recordFace fsamples))) = 45
   \<and> EYE_RECORDING_DURATION = 30 \<and> FACE_RECORDING_DURATION = 45"
proof -
  have s: "saccadicMovements (recordEye samples) = length (filter saccade samples)"
    by (simp add: recordEye_def foldl_eye_saccadic initialEyeMetrics_def)
  have b: "blinkRate (recordEye samples) = length (filter blink samples)"
    by (simp add: recordEye_def foldl_eye_blink initialEyeMetrics_def)
  have c: "eyeContactFrequency (recordFace fsamples) = length (filter eyeContact fsamples)"
    by (simp add: recordFace_def foldl_face_eyeContact initialFacialMetrics_def)
  show ?thesis
    by (simp add: eye_stopRecording_def eye_summary_def face_stopRecording_def
        face_eyeContactRate_def s b c EYE_RECORDING_DURATION_def FACE_RECORDING_DURATION_def
        Let_def)
qed

section \<open>Order of the stage scores\<close>

text \<open>
  A session with a questionnaire total of \<open>2\<close> out of \<open>18\<close>, two of the four eye-tracking
  flags and three of the five facial flags averages the binary64 numbers of
  \<open>1/9, 1/2, 3/5\<close>. In the result mapping with the two timed results exchanged the
  scores are \<open>1/9, 3/5, 1/2\<close>, and their average is another binary64 number: the sum is
  rounded after each addition, and the rounded additions do not associate. At a
  threshold the level changes with the order: \<open>2/5, 3/5, 4/5\<close> averages to the binary64
  number of \<open>0.6\<close>, Medium, and \<open>2/5, 4/5, 3/5\<close> to the next larger one, High.
\<close>

theorem overall_score_depends_on_order:
  "riskScores64
       (assessmentData
        (onComplete facialAnalysis
           (onComplete eyeTracking
              (onComplete questionnaire (beginAssessment initialSession)
                 (QuestionnaireData (questionnaireResult [(1, 2)])))
              (EyeTrackingData (eye_stopRecording
                 \<lparr>fixationDuration = [1500], saccadicMovements = 20, blinkRate = 6,
                  gazeStability = 1 / 2\<rparr>)))
           (FacialAnalysisData (face_stopRecording
                 (initialFacialMetrics\<lparr>symmetryScore := 9 / 10\<rparr>)))))
     = [binary64 (1 / 9), binary64 (1 / 2), binary64 (3 / 5)]
   \<and> riskScores64
       ((assessmentData
         (onComplete facialAnalysis
            (onComplete eyeTracking
               (onComplete questionnaire (beginAssessment initialSession)
                  (QuestionnaireData (questionnaireResult [(1, 2)])))
               (EyeTrackingData (eye_stopRecording
                  \<lparr>fixationDuration = [1500], saccadicMovements = 20, blinkRate = 6,
                   gazeStability = 1 / 2\<rparr>)))
            (FacialAnalysisData (face_stopRecording
                  (initialFacialMetrics\<lparr>symmetryScore := 9 / 10\<rparr>)))))
        (eyeTracking \<mapsto> FacialAnalysisData (face_stopRecording
                 (initialFacialMetrics\<lparr>symmetryScore := 9 / 10\<rparr>)),
         facialAnalysis \<mapsto> EyeTrackingData (eye_stopRecording
                 \<lparr>fixationDuration = [1500], saccadicMovements = 20, blinkRate = 6,
                  gazeStability = 1 / 2\<rparr>)))
     = [binary64 (1 / 9), binary64 (3 / 5), binary64 (1 / 2)]
   \<and> avgRisk64
       (assessmentData
        (onComplete facialAnalysis
           (onComplete eyeTracking
              (onComplete questionnaire (beginAssessment initialSession)
                 (QuestionnaireData (questionnaireResult [(1, 2)])))
              (EyeTrackingData (eye_stopRecording
                 \<lparr>fixationDuration = [1500], saccadicMovements = 20, blinkRate = 6,
                  gazeStability = 1 / 2\<rparr>)))
           (FacialAnalysisData (face_stopRecording
                 (initialFacialMetrics\<lparr>symmetryScore := 9 / 10\<rparr>)))))
     = Fin (7272479398272357 / 18014398509481984)
   \<and> avgRisk64
       ((assessmentData
         (onComplete facialAnalysis
            (onComplete eyeTracking
               (onComplete questionnaire (beginAssessment initialSession)
                  (QuestionnaireData (questionnaireResult [(1, 2)])))
               (EyeTrackingData (eye_stopRecording
                  \<lparr>fixationDuration = [1500], saccadicMovements = 20, blinkRate = 6,
                   gazeStability = 1 / 2\<rparr>)))
            (FacialAnalysisData (face_stopRecording
                  (initialFacialMetrics\<lparr>symmetryScore := 9 / 10\<rparr>)))))
        (eyeTracking \<mapsto> FacialAnalysisData (face_stopRecording
                 (initialFacialMetrics\<lparr>symmetryScore := 9 / 10\<rparr>)),
         facialAnalysis \<mapsto> EyeTrackingData (eye_stopRecording
                 \<lparr>fixationDuration = [1500], saccadicMovements = 20, blinkRate = 6,
                  gazeStability = 1 / 2\<rparr>)))
     = Fin (1818119849568089 / 4503599627370496)
   \<and> avgRisk64
       (assessmentData
        (onComplete facialAnalysis
           (onComplete eyeTracking
              (onComplete questionnaire (beginAssessment initialSession)
                 (QuestionnaireData (questionnaireResult [(1, 2)])))
              (EyeTrackingData (eye_stopRecording
                 \<lparr>fixationDuration = [1500], saccadicMovements = 20, blinkRate = 6,
                  gazeStability = 1 / 2\<rparr>)))
           (FacialAnalysisData (face_stopRecording
                 (initialFacialMetrics\<lparr>symmetryScore := 9 / 10\<rparr>)))))
     \<noteq> avgRisk64
       ((assessmentData
         (onComplete facialAnalysis
            (onComplete eyeTracking
               (onComplete questionnaire (beginAssessment initialSession)
                  (QuestionnaireData (questionnaireResult [(1, 2)])))
               (EyeTrackingData (eye_stopRecording
                  \<lparr>fixationDuration = [1500], saccadicMovements = 20, blinkRate = 6,
                   gazeStability = 1 / 2\<rparr>)))
            (FacialAnalysisData (face_stopRecording
                  (initialFacialMetrics\<lparr>symmetryScore := 9 / 10\<rparr>)))))
        (eyeTracking \<mapsto> FacialAnalysisData (face_stopRecording
                 (initialFacialMetrics\<lparr>symmetryScore := 9 / 10\<rparr>)),
         facialAnalysis \<mapsto> EyeTrackingData (eye_stopRecording
                 \<lparr>fixationDuration = [1500], saccadicMovements = 20, blinkRate = 6,
                  gazeStability = 1 / 2\<rparr>)))
   \<and> avgRiskOf64 [binary64 (2 / 5), binary64 (3 / 5), binary64 (4 / 5)]
     \<noteq> avgRiskOf64 [binary64 (2 / 5), binary64 (4 / 5), binary64 (3 / 5)]
   \<and> riskLevelOf64 (avgRiskOf64 [binary64 (2 / 5), binary64 (3 / 5), binary64 (4 / 5)])
     = Medium
   \<and> riskLevelOf64 (avgRiskOf64 [binary64 (2 / 5), binary64 (4 / 5), binary64 (3 / 5)])
     = High"
proof -
  have e: "eye_riskScore (eye_stopRecording
                 \<lparr>fixationDuration = [1500], saccadicMovements = 20, blinkRate = 6,
                  gazeStability = 1 / 2\<rparr>) = Fin (1 / 2)"
    by (simp add: eye_stopRecording_def eye_summary_def eye_asdIndicators_def eye_flags_def
        indicatorRatio_def EYE_RECORDING_DURATION_def Let_def)
  have f: "face_riskScore (face_stopRecording
                 (initialFacialMetrics\<lparr>symmetryScore := 9 / 10\<rparr>)) = Fin (3 / 5)"
    by (simp add: face_stopRecording_def face_asdIndicators_def face_emotionDistribution_def
        face_eyeContactRate_def totalEmotions_def face_flags_def indicatorRatio_def
        FACE_RECORDING_DURATION_def js_gt_def initialFacialMetrics_def emotions_def Let_def)
  have s1: "riskScores
       (assessmentData
        (onComplete facialAnalysis
           (onComplete eyeTracking
              (onComplete questionnaire (beginAssessment initialSession)
                 (QuestionnaireData (questionnaireResult [(1, 2)])))
              (EyeTrackingData (eye_stopRecording
                 \<lparr>fixationDuration = [1500], saccadicMovements = 20, blinkRate = 6,
                  gazeStability = 1 / 2\<rparr>)))
           (FacialAnalysisData (face_stopRecording
                 (initialFacialMetrics\<lparr>symmetryScore := 9 / 10\<rparr>)))))
     = [Fin (1 / 9), Fin (1 / 2), Fin (3 / 5)]"
    by (simp add: riskScores_def onComplete_data questionnaire_totals e f)
  have s2: "riskScores
       ((assessmentData
         (onComplete facialAnalysis
            (onComplete eyeTracking
               (onComplete questionnaire (beginAssessment initialSession)
                  (QuestionnaireData (questionnaireResult [(1, 2)])))
               (EyeTrackingData (eye_stopRecording
                  \<lparr>fixationDuration = [1500], saccadicMovements = 20, blinkRate = 6,
                   gazeStability = 1 / 2\<rparr>)))
            (FacialAnalysisData (face_stopRecording
                  (initialFacialMetrics\<lparr>symmetryScore := 9 / 10\<rparr>)))))
        (eyeTracking \<mapsto> FacialAnalysisData (face_stopRecording
                 (initialFacialMetrics\<lparr>symmetryScore := 9 / 10\<rparr>)),
         facialAnalysis \<mapsto> EyeTrackingData (eye_stopRecording
                 \<lparr>fixationDuration = [1500], saccadicMovements = 20, blinkRate = 6,
                  gazeStability = 1 / 2\<rparr>)))
     = [Fin (1 / 9), Fin (3 / 5), Fin (1 / 2)]"
    by (simp add: riskScores_def onComplete_data questionnaire_totals e f)
  have r1: "riskScores64
       (assessmentData
        (onComplete facialAnalysis
           (onComplete eyeTracking
              (onComplete questionnaire (beginAssessment initialSession)
                 (QuestionnaireData (questionnaireResult [(1, 2)])))
              (EyeTrackingData (eye_stopRecording
                 \<lparr>fixationDuration = [1500], saccadicMovements = 20, blinkRate = 6,
                  gazeStability = 1 / 2\<rparr>)))
           (FacialAnalysisData (face_stopRecording
                 (initialFacialMetrics\<lparr>symmetryScore := 9 / 10\<rparr>)))))
     = [binary64 (1 / 9), binary64 (1 / 2), binary64 (3 / 5)]"
    by (simp only: riskScores64_def s1 list.map to_binary64.simps)
  have r2: "riskScores64
       ((assessmentData
         (onComplete facialAnalysis
            (onComplete eyeTracking
               (onComplete questionnaire (beginAssessment initialSession)
                  (QuestionnaireData (questionnaireResult [(1, 2)])))
               (EyeTrackingData (eye_stopRecording
                  \<lparr>fixationDuration = [1500], saccadicMovements = 20, blinkRate = 6,
                   gazeStability = 1 / 2\<rparr>)))
            (FacialAnalysisData (face_stopRecording
                  (initialFacialMetrics\<lparr>symmetryScore := 9 / 10\<rparr>)))))
        (eyeTracking \<mapsto> FacialAnalysisData (face_stopRecording
                 (initialFacialMetrics\<lparr>symmetryScore := 9 / 10\<rparr>)),
         facialAnalysis \<mapsto> EyeTrackingData (eye_stopRecording
                 \<lparr>fixationDuration = [1500], saccadicMovements = 20, blinkRate = 6,
                  gazeStability = 1 / 2\<rparr>)))
     = [binary64 (1 / 9), binary64 (3 / 5), binary64 (1 / 2)]"
    by (simp only: riskScores64_def s2 list.map to_binary64.simps)
  have a1: "avgRisk64
       (assessmentData
        (onComplete facialAnalysis
           (onComplete eyeTracking
              (onComplete questionnaire (beginAssessment initialSession)
                 (QuestionnaireData (questionnaireResult [(1, 2)])))
              (EyeTrackingData (eye_stopRecording
                 \<lparr>fixationDuration = [1500], saccadicMovements = 20, blinkRate = 6,
                  gazeStability = 1 / 2\<rparr>)))
           (FacialAnalysisData (face_stopRecording
                 (initialFacialMetrics\<lparr>symmetryScore := 9 / 10\<rparr>)))))
     = Fin (7272479398272357 / 18014398509481984)"
    by (simp only: avgRisk64_def r1 avgRiskOf64_ninth_half_three_fifths)
  have a2: "avgRisk64
       ((assessmentData
         (onComplete facialAnalysis
            (onComplete eyeTracking
               (onComplete questionnaire (beginAssessment initialSession)
                  (QuestionnaireData (questionnaireResult [(1, 2)])))
               (EyeTrackingData (eye_stopRecording
                  \<lparr>fixationDuration = [1500], saccadicMovements = 20, blinkRate = 6,
                   gazeStability = 1 / 2\<rparr>)))
            (FacialAnalysisData (face_stopRecording
                  (initialFacialMetrics\<lparr>symmetryScore := 9 / 10\<rparr>)))))
        (eyeTracking \<mapsto> FacialAnalysisData (face_stopRecording
                 (initialFacialMetrics\<lparr>symmetryScore := 9 / 10\<rparr>)),
         facialAnalysis \<mapsto> EyeTrackingData (eye_stopRecording
                 \<lparr>fixationDuration = [1500], saccadicMovements = 20, blinkRate = 6,
                  gazeStability = 1 / 2\<rparr>)))
     = Fin (1818119849568089 / 4503599627370496)"
    by (simp only: avgRisk64_def r2 avgRiskOf64_ninth_three_fifths_half)
  have ne: "avgRisk64
       (assessmentData
        (onComplete facialAnalysis
           (onComplete eyeTracking
              (onComplete questionnaire (beginAssessment initialSession)
                 (QuestionnaireData (questionnaireResult [(1, 2)])))
              (EyeTrackingData (eye_stopRecording
                 \<lparr>fixationDuration = [1500], saccadicMovements = 20, blinkRate = 6,
                  gazeStability = 1 / 2\<rparr>)))
           (FacialAnalysisData (face_stopRecording
                 (initialFacialMetrics\<lparr>symmetryScore := 9 / 10\<rparr>)))))
     \<noteq> avgRisk64
       ((assessmentData
         (onComplete facialAnalysis
            (onComplete eyeTracking
               (onComplete questionnaire (beginAssessment initialSession)
                  (QuestionnaireData (questionnaireResult [(1, 2)])))
               (EyeTrackingData (eye_stopRecording
                  \<lparr>fixationDuration = [1500], saccadicMovements = 20, blinkRate = 6,
                   gazeStability = 1 / 2\<rparr>)))
            (FacialAnalysisData (face_stopRecording
                  (initialFacialMetrics\<lparr>symmetryScore := 9 / 10\<rparr>)))))
        (eyeTracking \<mapsto> FacialAnalysisData (face_stopRecording
                 (initialFacialMetrics\<lparr>symmetryScore := 9 / 10\<rparr>)),
         facialAnalysis \<mapsto> EyeTrackingData (eye_stopRecording
                 \<lparr>fixationDuration = [1500], saccadicMovements = 20, blinkRate = 6,
                  gazeStability = 1 / 2\<rparr>)))"
    unfolding a1 a2 by simp
  have ne2: "avgRiskOf64 [binary64 (2 / 5), binary64 (3 / 5), binary64 (4 / 5)]
     \<noteq> avgRiskOf64 [binary64 (2 / 5), binary64 (4 / 5), binary64 (3 / 5)]"
    unfolding avgRiskOf64_medium avgRiskOf64_high by simp
  have m: "riskLevelOf64 (avgRiskOf64 [binary64 (2 / 5), binary64 (3 / 5), binary64 (4 / 5)])
     = Medium"
    unfolding avgRiskOf64_medium by (simp add: riskLevelOf64_def binary64_values)
  have h: "riskLevelOf64 (avgRiskOf64 [binary64 (2 / 5), binary64 (4 / 5), binary64 (3 / 5)])
     = High"
    unfolding avgRiskOf64_high by (simp add: riskLevelOf64_def binary64_values)
  from r1 r2 a1 a2 ne ne2 m h show ?thesis
    by (intro conjI)
qed

text \<open>
  Claim C9, as the code has it: the overall score does not change when the score of the
  questionnaire and the score of the eye tracking, the first two summands, are
  exchanged; the second addition is then the same sum in the other order. An exchange
  that moves the facial-analysis score, the last summand, can change the overall score
  and, at a threshold, the overall level.
\<close>

theorem overall_score_swap_first_two:
  assumes "riskScores64 d = [a, b, c]" and "riskScores64 d' = [b, a, c]"
  shows "avgRisk64 d = avgRisk64 d'
       \<and> riskLevelOf64 (avgRisk64 d) = riskLevelOf64 (avgRisk64 d')"
proof -
  obtain x y z where "riskScores d = [x, y, z]"
    by (simp add: riskScores_def)
  with assms(1) have "a = to_binary64 x" and "b = to_binary64 y"
    by (simp_all add: riskScores64_def)
  then have ra: "to_binary64 a = a" and rb: "to_binary64 b = b"
    by (simp_all only: to_binary64_idem)
  have "js_add64 (js_add64 (Fin 0) a) b = js_add64 a b"
    by (simp only: js_add64_def js_add_zero_left ra)
  also have "\<dots> = js_add64 b a"
    by (simp only: js_add64_def js_add_commute [of a b])
  also have "\<dots> = js_add64 (js_add64 (Fin 0) b) a"
    by (simp only: js_add64_def js_add_zero_left rb)
  finally have "avgRiskOf64 [a, b, c] = avgRiskOf64 [b, a, c]"
    by (simp add: avgRiskOf64_def)
  then have "avgRisk64 d = avgRisk64 d'"
    by (simp only: avgRisk64_def assms(1) assms(2))
  then show ?thesis by simp
qed

theorem overall_score_swap_first_two_witness:
  "riskScores64
       [questionnaire \<mapsto> QuestionnaireData (questionnaireResult [(1, 3), (2, 3), (3, 3)]),
        eyeTracking \<mapsto> EyeTrackingData (eye_stopRecording
           \<lparr>fixationDuration = [1500], saccadicMovements = 10, blinkRate = 4,
            gazeStability = 1 / 2\<rparr>),
        facialAnalysis \<mapsto> FacialAnalysisData (face_stopRecording (recordFace []))]
     = [binary64 (1 / 2), binary64 1, binary64 (4 / 5)]
   \<and> riskScores64
       [questionnaire \<mapsto> QuestionnaireData
           (questionnaireResult [(1, 3), (2, 3), (3, 3), (4, 3), (5, 3), (6, 3)]),
        eyeTracking \<mapsto> EyeTrackingData (eye_stopRecording
           \<lparr>fixationDuration = [1500], saccadicMovements = 20, blinkRate = 6,
            gazeStability = 1 / 2\<rparr>),
        facialAnalysis \<mapsto> FacialAnalysisData (face_stopRecording (recordFace []))]
     = [binary64 1, binary64 (1 / 2), binary64 (4 / 5)]
   \<and> avgRisk64
       [questionnaire \<mapsto> QuestionnaireData (questionnaireResult [(1, 3), (2, 3), (3, 3)]),
        eyeTracking \<mapsto> EyeTrackingData (eye_stopRecording
           \<lparr>fixationDuration = [1500], saccadicMovements = 10, blinkRate = 4,
            gazeStability = 1 / 2\<rparr>),
        facialAnalysis \<mapsto> FacialAnalysisData (face_stopRecording (recordFace []))]
     = avgRisk64
       [questionnaire \<mapsto> QuestionnaireData
           (questionnaireResult [(1, 3), (2, 3), (3, 3), (4, 3), (5, 3), (6, 3)]),
        eyeTracking \<mapsto> EyeTrackingData (eye_stopRecording
           \<lparr>fixationDuration = [1500], saccadicMovements = 20, blinkRate = 6,
            gazeStability = 1 / 2\<rparr>),
        facialAnalysis \<mapsto> FacialAnalysisData (face_stopRecording (recordFace []))]"
proof -
  have e1: "eye_riskScore (eye_stopRecording
           \<lparr>fixationDuration = [1500], saccadicMovements = 10, blinkRate = 4,
            gazeStability = 1 / 2\<rparr>) = Fin 1"
    by (simp add: eye_stopRecording_def eye_summary_def eye_asdIndicators_def eye_flags_def
        indicatorRatio_def EYE_RECORDING_DURATION_def Let_def)
  have e2: "eye_riskScore (eye_stopRecording
           \<lparr>fixationDuration = [1500], saccadicMovements = 20, blinkRate = 6,
            gazeStability = 1 / 2\<rparr>) = Fin (1 / 2)"
    by (simp add: eye_stopRecording_def eye_summary_def eye_asdIndicators_def eye_flags_def
        indicatorRatio_def EYE_RECORDING_DURATION_def Let_def)
  have h1: "riskScores64
       [questionnaire \<mapsto> QuestionnaireData (questionnaireResult [(1, 3), (2, 3), (3, 3)]),
        eyeTracking \<mapsto> EyeTrackingData (eye_stopRecording
           \<lparr>fixationDuration = [1500], saccadicMovements = 10, blinkRate = 4,
            gazeStability = 1 / 2\<rparr>),
        facialAnalysis \<mapsto> FacialAnalysisData (face_stopRecording (recordFace []))]
     = [binary64 (1 / 2), binary64 1, binary64 (4 / 5)]"
    by (simp add: riskScores64_def riskScores_def questionnaire_totals e1 empty_face_score)
  have h2: "riskScores64
       [questionnaire \<mapsto> QuestionnaireData
           (questionnaireResult [(1, 3), (2, 3), (3, 3), (4, 3), (5, 3), (6, 3)]),
        eyeTracking \<mapsto> EyeTrackingData (eye_stopRecording
           \<lparr>fixationDuration = [1500], saccadicMovements = 20, blinkRate = 6,
            gazeStability = 1 / 2\<rparr>),
        facialAnalysis \<mapsto> FacialAnalysisData (face_stopRecording (recordFace []))]
     = [binary64 1, binary64 (1 / 2), binary64 (4 / 5)]"
    by (simp add: riskScores64_def riskScores_def questionnaire_totals e2 empty_face_score)
  from overall_score_swap_first_two [OF h1 h2] h1 h2 show ?thesis
    by (intro conjI) (elim conjE, assumption)+
qed

section \<open>The frame of a stage completion\<close>

text \<open>
  Claim C10: a stage completion changes the result mapping at the completed stage only:
  the stored result of every other stage kind is the same after the event as before
  it, and the entry of the completed stage is the payload of the event.
\<close>

theorem stage_completion_frame:
  "k \<noteq> currentStage s \<Longrightarrow>
     assessmentData (handleStageComplete s d) k = assessmentData s k
     \<and> assessmentData (handleStageComplete s d) (currentStage s) = Some d"
  by (simp add: handleStageComplete_data)

theorem stage_completion_frame_witness:
  "questionnaire \<noteq> currentStage (handleStageComplete (beginAssessment initialSession)
                                     (QuestionnaireData (questionnaireResult [])))
   \<and> assessmentData
        (handleStageComplete
           (handleStageComplete (beginAssessment initialSession)
              (QuestionnaireData (questionnaireResult [])))
           (EyeTrackingData (eye_stopRecording (recordEye [])))) questionnaire
       = Some (QuestionnaireData (questionnaireResult []))"
proof -
  have h: "questionnaire \<noteq> currentStage (handleStageComplete (beginAssessment initialSession)
                                     (QuestionnaireData (questionnaireResult [])))"
    by (simp add: handleStageComplete_stage beginAssessment_def)
  have before: "assessmentData (handleStageComplete (beginAssessment initialSession)
                  (QuestionnaireData (questionnaireResult []))) questionnaire
                = Some (QuestionnaireData (questionnaireResult []))"
    by (simp add: handleStageComplete_data beginAssessment_def)
  from stage_completion_frame [OF h, of "EyeTrackingData (eye_stopRecording (recordEye []))"]
  show ?thesis
    using h before by simp
qed

end
